theory Spec2Isabelle
  imports Main "HOL-Library.Sublist"
begin

text \<open>
  A model of two parts of arduino-cli: the resolution of the debug configuration of a
  board (\<^verbatim>\<open>getDebugProperties\<close>), which merges layers of properties and expands
  the debug subtree, and the preparation of the sketch build path
  (\<^verbatim>\<open>PrepareSketchBuildPath\<close>), which merges the sketch sources into one file and
  copies the additional files. Package resolution, sketch loading and the file system are
  parameters of the model.
\<close>

section \<open>Errors\<close>

text \<open>
  The Go code reports failures as error values; a nil pointer dereference is a runtime
  panic. All of them are the left summand of the result type. \<open>Errorf\<close> is an error
  made by \<^verbatim>\<open>fmt.Errorf\<close>, \<open>Wrap\<close> one made by \<^verbatim>\<open>errors.Wrap\<close>,
  \<open>StatusError\<close> one made by \<^verbatim>\<open>status.Error\<close> with its code, \<open>IOError\<close> a
  failure of the file system on a path. Messages are the untranslated ones.
\<close>

datatype code = Unimplemented

datatype error =
    Errorf string
  | Wrap error string
  | StatusError code string
  | IOError string
  | NilPointerDereference

fun errorText :: "error \<Rightarrow> string" where
  "errorText (Errorf msg) = msg"
| "errorText (Wrap e msg) = msg @ '': '' @ errorText e"
| "errorText (StatusError c msg) = ''rpc error: code = Unimplemented desc = '' @ msg"
| "errorText (IOError msg) = msg"
| "errorText NilPointerDereference = ''runtime error: invalid memory address or nil pointer dereference''"

section \<open>The property store\<close>

text \<open>
  \<^verbatim>\<open>properties.Map\<close> of go-properties-orderedmap: a mapping from dotted keys to
  string values. The library is a module of its own; its operations are modelled as the
  specification describes them (section 4.1). Two keys are never merged field by field,
  so a partial function from keys to values carries all that the resolver observes.
\<close>

type_synonym props = "string \<rightharpoonup> string"

definition NewMap :: props where
  "NewMap = Map.empty"

text \<open>Modelled from the spec: \<^verbatim>\<open>Set(key, value)\<close> of the property store.\<close>
definition SetKey :: "props \<Rightarrow> string \<Rightarrow> string \<Rightarrow> props" where
  "SetKey m k v = m(k \<mapsto> v)"

text \<open>Modelled from the spec: \<^verbatim>\<open>Get(key)\<close>, the value or the empty string.\<close>
definition Get :: "props \<Rightarrow> string \<Rightarrow> string" where
  "Get m k = (case m k of None \<Rightarrow> [] | Some v \<Rightarrow> v)"

text \<open>Modelled from the spec: \<^verbatim>\<open>ContainsKey(key)\<close>.\<close>
definition ContainsKey :: "props \<Rightarrow> string \<Rightarrow> bool" where
  "ContainsKey m k = (m k \<noteq> None)"

text \<open>Modelled from the spec: \<^verbatim>\<open>Merge(other)\<close>, every key of the other store
  overwrites or is inserted.\<close>
definition Merge :: "props \<Rightarrow> props \<Rightarrow> props" where
  "Merge m other = m ++ other"

text \<open>Modelled from the spec: \<^verbatim>\<open>SubTree(prefix)\<close>, the keys starting with the
  prefix and a dot, with both removed.\<close>
definition SubTree :: "props \<Rightarrow> string \<Rightarrow> props" where
  "SubTree m rootKey = (\<lambda>k. m (rootKey @ ''.'' @ k))"

text \<open>Modelled from the spec: \<^verbatim>\<open>SetPath(key, path)\<close> stores the string form of a
  path.\<close>
definition SetPath :: "props \<Rightarrow> string \<Rightarrow> string \<Rightarrow> props" where
  "SetPath m k p = SetKey m k p"

text \<open>
  Modelled from the spec: \<^verbatim>\<open>ExpandPropsInString\<close>. One pass replaces every
  \<^verbatim>\<open>{key}\<close> by \<^verbatim>\<open>Get(key)\<close> (a missing key gives the empty string); passes
  are repeated until the string no longer changes or ten passes are done. The second
  argument of \<open>expandPass\<close> is the key collected since the last opening brace.
\<close>
fun expandPass :: "props \<Rightarrow> string option \<Rightarrow> string \<Rightarrow> string" where
  "expandPass m None [] = []"
| "expandPass m (Some k) [] = CHR ''{'' # k"
| "expandPass m None (c # cs) =
     (if c = CHR ''{'' then expandPass m (Some []) cs else c # expandPass m None cs)"
| "expandPass m (Some k) (c # cs) =
     (if c = CHR ''}'' then Get m k @ expandPass m None cs
      else expandPass m (Some (k @ [c])) cs)"

fun expandUpTo :: "nat \<Rightarrow> props \<Rightarrow> string \<Rightarrow> string" where
  "expandUpTo 0 m str = str"
| "expandUpTo (Suc n) m str =
     (let newStr = expandPass m None str
      in if str = newStr then str else expandUpTo n m newStr)"

definition ExpandPropsInString :: "props \<Rightarrow> string \<Rightarrow> string" where
  "ExpandPropsInString m str = expandUpTo 10 m str"

section \<open>Platforms, tools and the package manager\<close>

record Programmer =
  Properties :: props

record ToolRelease =
  RuntimeProperties :: props

text \<open>
  A platform release as the resolver reads it: its properties, the result of
  \<^verbatim>\<open>RuntimeProperties()\<close>, its programmer table and the result of
  \<^verbatim>\<open>String()\<close> (platform identifier, an at sign, the version).
\<close>
record PlatformRelease =
  Properties :: props
  RuntimeProperties :: props
  Programmers :: "string \<rightharpoonup> Programmer"
  PlatformString :: string

text \<open>
  The package manager as the resolver uses it. FQBN parsing and board resolution are
  external collaborators, so the parsed identifier and the board are opaque.
  \<open>ResolveFQBN\<close> gives the platform release, the board, the board properties and
  the referenced platform release, which may be nil.
\<close>
record ('fqbn, 'board) PackageManager =
  ResolveFQBN :: "'fqbn \<Rightarrow> error + (PlatformRelease \<times> 'board \<times> props \<times> PlatformRelease option)"
  GetAllInstalledToolsReleases :: "ToolRelease list"
  FindToolsRequiredForBoard :: "'board \<Rightarrow> error + ToolRelease list"

section \<open>Files\<close>

text \<open>
  Paths are strings. The file system holds the regular files with their content and the
  directories, says which operations fail, computes relative paths (the path library is
  external) and records every physical write in \<open>writeLog\<close>, oldest first.
\<close>
record FileSystem =
  files :: "string \<rightharpoonup> string"
  dirs :: "string set"
  readFails :: "string \<Rightarrow> bool"
  writeFails :: "string \<Rightarrow> bool"
  mkdirFails :: "string \<Rightarrow> bool"
  relTo :: "string \<Rightarrow> string \<Rightarrow> error + string"
  writeLog :: "(string \<times> string) list"

definition Exist :: "FileSystem \<Rightarrow> string \<Rightarrow> bool" where
  "Exist fs p = (files fs p \<noteq> None \<or> p \<in> dirs fs)"

definition NotExist :: "FileSystem \<Rightarrow> string \<Rightarrow> bool" where
  "NotExist fs p = (\<not> Exist fs p)"

definition IsDir :: "FileSystem \<Rightarrow> string \<Rightarrow> bool" where
  "IsDir fs p = (p \<in> dirs fs)"

definition ReadFile :: "FileSystem \<Rightarrow> string \<Rightarrow> error + string" where
  "ReadFile fs p =
     (if readFails fs p then Inl (IOError p)
      else case files fs p of None \<Rightarrow> Inl (IOError p) | Some data \<Rightarrow> Inr data)"

definition WriteFile :: "FileSystem \<Rightarrow> string \<Rightarrow> string \<Rightarrow> error + FileSystem" where
  "WriteFile fs p data =
     (if writeFails fs p \<or> p \<in> dirs fs then Inl (IOError p)
      else Inr (fs\<lparr>files := (files fs)(p \<mapsto> data), writeLog := writeLog fs @ [(p, data)]\<rparr>))"

definition MkdirAll :: "FileSystem \<Rightarrow> string \<Rightarrow> error + FileSystem" where
  "MkdirAll fs p =
     (if mkdirFails fs p \<or> files fs p \<noteq> None then Inl (IOError p)
      else Inr (fs\<lparr>dirs := insert p (dirs fs)\<rparr>))"

text \<open>
  The path library (go-paths-helper) keeps a path as a string and goes through the
  \<^verbatim>\<open>path/filepath\<close> functions of Go, modelled here for slash-separated paths as
  their documentation describes them. \<open>Clean\<close> drops empty and \<^verbatim>\<open>.\<close>
  elements, cancels an inner \<^verbatim>\<open>..\<close> with the element before it, drops a
  \<^verbatim>\<open>..\<close> at the head of a rooted path, and gives \<^verbatim>\<open>.\<close> for an empty
  result. \<open>filepath_Join\<close> ignores empty elements and cleans the result.
\<close>
fun splitSlash :: "string \<Rightarrow> string list" where
  "splitSlash [] = [[]]"
| "splitSlash (c # cs) =
     (if c = CHR ''/'' then [] # splitSlash cs
      else case splitSlash cs of
             [] \<Rightarrow> [[c]]
           | w # ws \<Rightarrow> (c # w) # ws)"

fun joinSlash :: "string list \<Rightarrow> string" where
  "joinSlash [] = []"
| "joinSlash [x] = x"
| "joinSlash (x # y # ys) = x @ ''/'' @ joinSlash (y # ys)"

definition cleanElement :: "bool \<Rightarrow> string list \<Rightarrow> string \<Rightarrow> string list" where
  "cleanElement rooted out elem =
     (if elem = ''..'' then
        (if out \<noteq> [] \<and> last out \<noteq> ''..'' then butlast out
         else if rooted then out
         else out @ [''..''])
      else out @ [elem])"

definition Clean :: "string \<Rightarrow> string" where
  "Clean path =
     (if path = [] then ''.''
      else
        (let rooted = (hd path = CHR ''/'');
             elems = filter (\<lambda>e. e \<noteq> [] \<and> e \<noteq> ''.'') (splitSlash path);
             out = joinSlash (foldl (cleanElement rooted) [] elems);
             out = (if rooted then CHR ''/'' # out else out)
         in if out = [] then ''.'' else out))"

definition filepath_Join :: "string list \<Rightarrow> string" where
  "filepath_Join elems =
     (if filter (\<lambda>e. e \<noteq> []) elems = [] then []
      else Clean (joinSlash (filter (\<lambda>e. e \<noteq> []) elems)))"

text \<open>
  \<^verbatim>\<open>Join\<close> (and \<^verbatim>\<open>JoinPath\<close> with one path):
  \<^verbatim>\<open>filepath.Join(p.path, filepath.Join(paths...))\<close>.
\<close>
definition Join :: "string \<Rightarrow> string \<Rightarrow> string" where
  "Join p elem = filepath_Join [p, filepath_Join [elem]]"

text \<open>
  \<^verbatim>\<open>Base\<close>: \<^verbatim>\<open>filepath.Base\<close>, the last element of the path without its
  trailing slashes; \<^verbatim>\<open>.\<close> for the empty path and \<^verbatim>\<open>/\<close> for a path of
  slashes only.
\<close>
definition Base :: "string \<Rightarrow> string" where
  "Base p =
     (if p = [] then ''.''
      else
        (let q = rev (dropWhile (\<lambda>c. c = CHR ''/'') (rev p))
         in if q = [] then ''/''
            else rev (takeWhile (\<lambda>c. c \<noteq> CHR ''/'') (rev q))))"

text \<open>
  \<^verbatim>\<open>Parent\<close>: \<^verbatim>\<open>filepath.Dir\<close>, the path up to its last slash, cleaned.
\<close>
definition Parent :: "string \<Rightarrow> string" where
  "Parent p = Clean (rev (dropWhile (\<lambda>c. c \<noteq> CHR ''/'') (rev p)))"

section \<open>Sketches and debug requests\<close>

record Metadata =
  CPU_Fqbn :: string

record Sketch =
  Name :: string
  FullPath :: string
  MainFile :: string
  OtherSketchFiles :: "string list"
  AdditionalFiles :: "string list"
  BuildPath :: string
  Metadata :: "Metadata option"

record Port =
  Address :: string

record DebugConfigRequest =
  GetSketchPath :: string
  GetFqbn :: string
  GetProgrammer :: string
  GetImportDir :: string
  GetPort :: "Port option"

text \<open>The generated getter answers the empty string on a nil port.\<close>
definition GetAddress :: "Port option \<Rightarrow> string" where
  "GetAddress port = (case port of None \<Rightarrow> [] | Some p \<Rightarrow> Address p)"

record GetDebugConfigResponse =
  Executable :: string
  Server :: string
  ServerPath :: string
  ServerConfiguration :: props
  Toolchain :: string
  ToolchainPath :: string
  ToolchainPrefix :: string
  ToolchainConfiguration :: props

text \<open>What \<open>getDebugProperties\<close> reaches besides its arguments: sketch loading, FQBN
  parsing and the file system.\<close>
record 'fqbn Env =
  sketch_New :: "string \<Rightarrow> error + Sketch"
  ParseFQBN :: "string \<Rightarrow> error + 'fqbn"
  fs :: FileSystem

definition TrimPrefix :: "string \<Rightarrow> string \<Rightarrow> string" where
  "TrimPrefix s pre = (if prefix pre s then drop (length pre) s else s)"

section \<open>getDebugProperties (commands/debug/debug_info.go)\<close>

text \<open>Lines 46 to 72: the sketch is opened, the FQBN chosen, parsed and resolved.\<close>
definition resolveTarget ::
  "'fqbn Env \<Rightarrow> ('fqbn, 'board) PackageManager \<Rightarrow> DebugConfigRequest \<Rightarrow>
     error + (Sketch \<times> PlatformRelease \<times> 'board \<times> props \<times> PlatformRelease option)" where
  "resolveTarget env pm req =
     (if GetSketchPath req = [] then Inl (Errorf ''missing sketchPath'')
      else case sketch_New env (GetSketchPath req) of
        Inl err \<Rightarrow> Inl (Wrap err ''opening sketch'')
      | Inr sk \<Rightarrow>
          (let fqbnIn = (if GetFqbn req = []
                         then (case Metadata sk of None \<Rightarrow> GetFqbn req | Some md \<Rightarrow> CPU_Fqbn md)
                         else GetFqbn req)
           in if fqbnIn = [] then Inl (Errorf ''no Fully Qualified Board Name provided'')
              else case ParseFQBN env fqbnIn of
                Inl err \<Rightarrow> Inl (Wrap err ''error parsing FQBN'')
              | Inr fqbn \<Rightarrow>
                  (case ResolveFQBN pm fqbn of
                     Inl err \<Rightarrow> Inl (Wrap err ''error resolving FQBN'')
                   | Inr (platformRelease, board, boardProperties, referencedPlatformRelease) \<Rightarrow>
                       Inr (sk, platformRelease, board, boardProperties, referencedPlatformRelease))))"

text \<open>Lines 75 to 81: referenced platform, platform, platform runtime, board.\<close>
definition platformLayers :: "PlatformRelease \<Rightarrow> props \<Rightarrow> PlatformRelease option \<Rightarrow> props" where
  "platformLayers platformRelease boardProperties referencedPlatformRelease =
     (let toolProperties = NewMap;
          toolProperties = (case referencedPlatformRelease of
                              None \<Rightarrow> toolProperties
                            | Some r \<Rightarrow> Merge toolProperties (Properties r));
          toolProperties = Merge toolProperties (Properties platformRelease);
          toolProperties = Merge toolProperties (RuntimeProperties platformRelease)
      in Merge toolProperties boardProperties)"

text \<open>Lines 83 to 96: the hotfix for the \<^verbatim>\<open>arduino:samd\<close> core.\<close>
definition samdHotfix :: "PlatformRelease \<Rightarrow> props \<Rightarrow> props" where
  "samdHotfix platformRelease toolProperties =
     (if \<not> ContainsKey toolProperties ''debug.executable'' then
        (if PlatformString platformRelease = ''arduino:samd@1.8.9''
            \<or> PlatformString platformRelease = ''arduino:samd@1.8.8'' then
           (let tp = SetKey toolProperties ''debug.executable'' ''{build.path}/{build.project_name}.elf'';
                tp = SetKey tp ''debug.toolchain'' ''gcc'';
                tp = SetKey tp ''debug.toolchain.path'' ''{runtime.tools.arm-none-eabi-gcc-7-2017q4.path}/bin/'';
                tp = SetKey tp ''debug.toolchain.prefix'' ''arm-none-eabi-'';
                tp = SetKey tp ''debug.server'' ''openocd'';
                tp = SetKey tp ''debug.server.openocd.path'' ''{runtime.tools.openocd-0.10.0-arduino7.path}/bin/openocd'';
                tp = SetKey tp ''debug.server.openocd.scripts_dir'' ''{runtime.tools.openocd-0.10.0-arduino7.path}/share/openocd/scripts/''
            in SetKey tp ''debug.server.openocd.script'' ''{runtime.platform.path}/variants/{build.variant}/{build.openocdscript}'')
         else toolProperties)
      else toolProperties)"

text \<open>Lines 98 to 106: every installed tool release, then the tools the board requires;
  a failure to find the required tools skips them.\<close>
definition mergeTools :: "props \<Rightarrow> ToolRelease list \<Rightarrow> props" where
  "mergeTools toolProperties tools =
     foldl (\<lambda>tp tool. Merge tp (ToolRelease.RuntimeProperties tool)) toolProperties tools"

definition toolLayers :: "('fqbn, 'board) PackageManager \<Rightarrow> 'board \<Rightarrow> props \<Rightarrow> props" where
  "toolLayers pm board toolProperties =
     (let toolProperties = mergeTools toolProperties (GetAllInstalledToolsReleases pm)
      in case FindToolsRequiredForBoard pm board of
           Inr requiredTools \<Rightarrow> mergeTools toolProperties requiredTools
         | Inl err \<Rightarrow> toolProperties)"

text \<open>Lines 108 to 116: the programmer. The referenced platform release is read without
  a nil check, so a nil one panics.\<close>
definition programmerLayer ::
  "DebugConfigRequest \<Rightarrow> PlatformRelease \<Rightarrow> PlatformRelease option \<Rightarrow> props \<Rightarrow> error + props" where
  "programmerLayer req platformRelease referencedPlatformRelease toolProperties =
     (if GetProgrammer req \<noteq> [] then
        (case Programmers platformRelease (GetProgrammer req) of
           Some p \<Rightarrow> Inr (Merge toolProperties (Programmer.Properties p))
         | None \<Rightarrow>
             (case referencedPlatformRelease of
                None \<Rightarrow> Inl NilPointerDereference
              | Some r \<Rightarrow>
                  (case Programmers r (GetProgrammer req) of
                     Some refP \<Rightarrow> Inr (Merge toolProperties (Programmer.Properties refP))
                   | None \<Rightarrow>
                       Inl (Errorf (''programmer '' @ [CHR 0x27] @ GetProgrammer req
                                      @ [CHR 0x27] @ '' not found'')))))
      else Inr toolProperties)"

text \<open>Lines 75 to 116 together: the merged property store.\<close>
definition mergedToolProperties ::
  "('fqbn, 'board) PackageManager \<Rightarrow> DebugConfigRequest \<Rightarrow> PlatformRelease \<Rightarrow> 'board \<Rightarrow> props \<Rightarrow>
     PlatformRelease option \<Rightarrow> error + props" where
  "mergedToolProperties pm req platformRelease board boardProperties referencedPlatformRelease =
     programmerLayer req platformRelease referencedPlatformRelease
       (toolLayers pm board
          (samdHotfix platformRelease
             (platformLayers platformRelease boardProperties referencedPlatformRelease)))"

text \<open>Lines 118 to 129: the import path is checked and bound, with the project name.\<close>
definition bindBuildPath ::
  "FileSystem \<Rightarrow> DebugConfigRequest \<Rightarrow> Sketch \<Rightarrow> props \<Rightarrow> error + props" where
  "bindBuildPath fsys req sk toolProperties =
     (let importPath = (if GetImportDir req \<noteq> [] then GetImportDir req else BuildPath sk)
      in if \<not> Exist fsys importPath then
           Inl (Errorf (''compiled sketch not found in '' @ importPath))
         else if \<not> IsDir fsys importPath then
           Inl (Errorf (''expected compiled sketch in directory '' @ importPath
                          @ '', but is a file instead''))
         else Inr (SetKey (SetPath toolProperties ''build.path'' importPath)
                     ''build.project_name'' (Name sk @ ''.ino'')))"

text \<open>Lines 131 to 137: the debug port.\<close>
definition setDebugPort :: "DebugConfigRequest \<Rightarrow> props \<Rightarrow> props" where
  "setDebugPort req toolProperties =
     (let port = GetPort req
      in if GetAddress port \<noteq> [] then
           (let tp = SetKey toolProperties ''debug.port'' (GetAddress port);
                portFile = TrimPrefix (GetAddress port) ''/dev/''
            in SetKey tp ''debug.port.file'' portFile)
         else toolProperties)"

text \<open>Lines 139 to 143: the debug subtree, each value expanded in the whole store.\<close>
definition extractDebugProperties :: "props \<Rightarrow> props" where
  "extractDebugProperties toolProperties =
     (\<lambda>k. case SubTree toolProperties ''debug'' k of
             None \<Rightarrow> None
           | Some v \<Rightarrow> Some (ExpandPropsInString toolProperties v))"

text \<open>Lines 145 to 160: the check for the executable and the response.\<close>
definition debugResponse :: "DebugConfigRequest \<Rightarrow> props \<Rightarrow> error + GetDebugConfigResponse" where
  "debugResponse req debugProperties =
     (if \<not> ContainsKey debugProperties ''executable'' then
        Inl (StatusError Unimplemented (''debugging not supported for board '' @ GetFqbn req))
      else
        (let server = Get debugProperties ''server'';
             toolchain = Get debugProperties ''toolchain''
         in Inr \<lparr> Executable = Get debugProperties ''executable'',
                  Server = server,
                  ServerPath = Get debugProperties (''server.'' @ server @ ''.path''),
                  ServerConfiguration = SubTree debugProperties (''server.'' @ server),
                  Toolchain = toolchain,
                  ToolchainPath = Get debugProperties ''toolchain.path'',
                  ToolchainPrefix = Get debugProperties ''toolchain.prefix'',
                  ToolchainConfiguration = SubTree debugProperties (''toolchain.'' @ toolchain) \<rparr>))"

definition getDebugProperties ::
  "'fqbn Env \<Rightarrow> DebugConfigRequest \<Rightarrow> ('fqbn, 'board) PackageManager \<Rightarrow>
     error + GetDebugConfigResponse" where
  "getDebugProperties env req pm =
     (case resolveTarget env pm req of
        Inl err \<Rightarrow> Inl err
      | Inr (sk, platformRelease, board, boardProperties, referencedPlatformRelease) \<Rightarrow>
          (case mergedToolProperties pm req platformRelease board boardProperties
                  referencedPlatformRelease of
             Inl err \<Rightarrow> Inl err
           | Inr toolProperties \<Rightarrow>
               (case bindBuildPath (fs env) req sk toolProperties of
                  Inl err \<Rightarrow> Inl err
                | Inr toolProperties \<Rightarrow>
                    debugResponse req
                      (extractDebugProperties (setDebugPort req toolProperties)))))"

section \<open>The sketch builder (arduino/builder/sketch.go)\<close>

text \<open>
  The pattern \<^verbatim>\<open>(?m)^\s*#\s*include\s*[<\"]Arduino\.h[>\"]\<close>. \<open>isSpace\<close> is the
  class \<^verbatim>\<open>\s\<close> (tab, line feed, form feed, carriage return, space);
  \<open>matchHere\<close> matches the pattern after the anchor at the head of a string. No
  character that follows a \<^verbatim>\<open>\s*\<close> in the pattern is a space, so skipping all the
  spaces loses no match. In multi-line mode the anchor holds at the start of the text
  and after every line feed.
\<close>
definition isSpace :: "char \<Rightarrow> bool" where
  "isSpace c = (c = CHR 0x09 \<or> c = CHR 0x0A \<or> c = CHR 0x0C \<or> c = CHR 0x0D \<or> c = CHR '' '')"

definition matchHere :: "string \<Rightarrow> bool" where
  "matchHere s =
     (case dropWhile isSpace s of
        [] \<Rightarrow> False
      | h # s2 \<Rightarrow>
          h = CHR ''#'' \<and>
          (let s3 = dropWhile isSpace s2
           in prefix ''include'' s3 \<and>
              (case dropWhile isSpace (drop 7 s3) of
                 [] \<Rightarrow> False
               | q # s5 \<Rightarrow>
                   (q = CHR ''<'' \<or> q = CHR 0x22) \<and> prefix ''Arduino.h'' s5 \<and>
                   (case drop 9 s5 of
                      [] \<Rightarrow> False
                    | r # rest \<Rightarrow> r = CHR ''>'' \<or> r = CHR 0x22))))"

fun matchFrom :: "bool \<Rightarrow> string \<Rightarrow> bool" where
  "matchFrom atLineStart [] = False"
| "matchFrom atLineStart (c # cs) =
     ((atLineStart \<and> matchHere (c # cs)) \<or> matchFrom (c = CHR 0x0A) cs)"

definition includesArduinoH :: "string \<Rightarrow> bool" where
  "includesArduinoH s = matchFrom True s"

text \<open>Modelled from the spec: \<^verbatim>\<open>cpp.QuoteString\<close>, which is not among the sources;
  the marker is written \<^verbatim>\<open>#line 1 "<original-file-path>"\<close>, the path between
  double quotes.\<close>
definition QuoteString :: "string \<Rightarrow> string" where
  "QuoteString str = [CHR 0x22] @ str @ [CHR 0x22]"

text \<open>The closure \<open>getSource\<close> of \<open>sketchMergeSources\<close>.\<close>
definition getSource ::
  "Sketch \<Rightarrow> (string \<rightharpoonup> string) \<Rightarrow> FileSystem \<Rightarrow> string \<Rightarrow> error + string" where
  "getSource sk overrides fsys f =
     (case relTo fsys (FullPath sk) f of
        Inl err \<Rightarrow> Inl (Wrap err ''unable to compute relative path to the sketch for the item'')
      | Inr path \<Rightarrow>
          (case overrides path of
             Some override \<Rightarrow> Inr override
           | None \<Rightarrow>
               (case ReadFile fsys f of
                  Inl err \<Rightarrow> Inl (Errorf (''reading file '' @ f @ '': '' @ errorText err))
                | Inr data \<Rightarrow> Inr data)))"

text \<open>The loop over \<open>OtherSketchFiles\<close>; it touches the merged text only.\<close>
fun mergeOtherSketchFiles ::
  "Sketch \<Rightarrow> (string \<rightharpoonup> string) \<Rightarrow> FileSystem \<Rightarrow> string list \<Rightarrow> string \<Rightarrow> error + string" where
  "mergeOtherSketchFiles sk overrides fsys [] mergedSource = Inr mergedSource"
| "mergeOtherSketchFiles sk overrides fsys (file # rest) mergedSource =
     (case getSource sk overrides fsys file of
        Inl err \<Rightarrow> Inl err
      | Inr src \<Rightarrow>
          mergeOtherSketchFiles sk overrides fsys rest
            (mergedSource @ ''#line 1 '' @ QuoteString file @ [CHR 0x0A] @ src @ [CHR 0x0A]))"

definition sketchMergeSources ::
  "Sketch \<Rightarrow> (string \<rightharpoonup> string) \<Rightarrow> FileSystem \<Rightarrow> error + (int \<times> string)" where
  "sketchMergeSources sk overrides fsys =
     (case getSource sk overrides fsys (MainFile sk) of
        Inl err \<Rightarrow> Inl err
      | Inr mainSrc \<Rightarrow>
          (let (lineOffset, mergedSource) =
                 (if \<not> includesArduinoH mainSrc
                  then (0 + 1, [] @ ''#include <Arduino.h>'' @ [CHR 0x0A])
                  else (0, []));
               mergedSource = mergedSource @ ''#line 1 '' @ QuoteString (MainFile sk) @ [CHR 0x0A];
               mergedSource = mergedSource @ mainSrc @ [CHR 0x0A];
               lineOffset = lineOffset + 1
           in case mergeOtherSketchFiles sk overrides fsys (OtherSketchFiles sk) mergedSource of
                Inl err \<Rightarrow> Inl err
              | Inr mergedSource \<Rightarrow> Inr (lineOffset, mergedSource)))"

text \<open>
  \<open>writeIfDifferent\<close>, \<open>sketchCopyAdditionalFiles\<close> and
  \<open>PrepareSketchBuildPath\<close> change the file system: they return it with their
  result, also when they fail.
\<close>
definition writeIfDifferent ::
  "FileSystem \<Rightarrow> string \<Rightarrow> string \<Rightarrow> error option \<times> FileSystem" where
  "writeIfDifferent fsys source destPath =
     (if NotExist fsys destPath then
        (case WriteFile fsys destPath source of
           Inl err \<Rightarrow> (Some err, fsys)
         | Inr fsys' \<Rightarrow> (None, fsys'))
      else case ReadFile fsys destPath of
        Inl err \<Rightarrow> (Some (Wrap err ''unable to read contents of the destination item''), fsys)
      | Inr existingBytes \<Rightarrow>
          (if existingBytes \<noteq> source then
             (case WriteFile fsys destPath source of
                Inl err \<Rightarrow> (Some err, fsys)
              | Inr fsys' \<Rightarrow> (None, fsys'))
           else (None, fsys)))"

text \<open>One round of the loop of \<open>sketchCopyAdditionalFiles\<close>.\<close>
definition copyAdditionalFile ::
  "Sketch \<Rightarrow> string \<Rightarrow> (string \<rightharpoonup> string) \<Rightarrow> FileSystem \<Rightarrow> string \<Rightarrow> error option \<times> FileSystem" where
  "copyAdditionalFile sk buildPath overrides fsys file =
     (case relTo fsys (FullPath sk) file of
        Inl err \<Rightarrow>
          (Some (Wrap err ''unable to compute relative path to the sketch for the item''), fsys)
      | Inr relpath \<Rightarrow>
          (let targetPath = Join buildPath relpath
           in case MkdirAll fsys (Parent targetPath) of
                Inl err \<Rightarrow> (Some (Wrap err ''unable to create the folder containing the item''), fsys)
              | Inr fsys1 \<Rightarrow>
                  (case (case overrides relpath of
                           Some override \<Rightarrow> Inr override
                         | None \<Rightarrow>
                             (case ReadFile fsys1 file of
                                Inl err \<Rightarrow> Inl (Wrap err ''unable to read contents of the source item'')
                              | Inr s \<Rightarrow> Inr s)) of
                     Inl err \<Rightarrow> (Some err, fsys1)
                   | Inr sourceBytes \<Rightarrow>
                       (let sourceBytes = (''#line 1 '' @ QuoteString file @ [CHR 0x0A]) @ sourceBytes
                        in case writeIfDifferent fsys1 sourceBytes targetPath of
                             (Some err, fsys2) \<Rightarrow>
                               (Some (Wrap err ''unable to write to destination file''), fsys2)
                           | (None, fsys2) \<Rightarrow> (None, fsys2)))))"

fun copyAdditionalFiles ::
  "Sketch \<Rightarrow> string \<Rightarrow> (string \<rightharpoonup> string) \<Rightarrow> FileSystem \<Rightarrow> string list \<Rightarrow> error option \<times> FileSystem" where
  "copyAdditionalFiles sk buildPath overrides fsys [] = (None, fsys)"
| "copyAdditionalFiles sk buildPath overrides fsys (file # rest) =
     (case copyAdditionalFile sk buildPath overrides fsys file of
        (Some err, fsys') \<Rightarrow> (Some err, fsys')
      | (None, fsys') \<Rightarrow> copyAdditionalFiles sk buildPath overrides fsys' rest)"

definition sketchCopyAdditionalFiles ::
  "Sketch \<Rightarrow> string \<Rightarrow> (string \<rightharpoonup> string) \<Rightarrow> FileSystem \<Rightarrow> error option \<times> FileSystem" where
  "sketchCopyAdditionalFiles sk buildPath overrides fsys =
     copyAdditionalFiles sk buildPath overrides fsys (AdditionalFiles sk)"

definition PrepareSketchBuildPath ::
  "Sketch \<Rightarrow> (string \<rightharpoonup> string) \<Rightarrow> string \<Rightarrow> FileSystem \<Rightarrow> (error + int) \<times> FileSystem" where
  "PrepareSketchBuildPath sk sourceOverrides buildPath fsys =
     (case MkdirAll fsys buildPath of
        Inl err \<Rightarrow> (Inl (Wrap err ''unable to create a folder to save the sketch''), fsys)
      | Inr fsys1 \<Rightarrow>
          (case sketchMergeSources sk sourceOverrides fsys1 of
             Inl err \<Rightarrow> (Inl err, fsys1)
           | Inr (offset, mergedSource) \<Rightarrow>
               (let destFile = Join buildPath (Base (MainFile sk) @ ''.cpp'')
                in case WriteFile fsys1 destFile mergedSource of
                     Inl err \<Rightarrow> (Inl err, fsys1)
                   | Inr fsys2 \<Rightarrow>
                       (case sketchCopyAdditionalFiles sk buildPath sourceOverrides fsys2 of
                          (Some err, fsys3) \<Rightarrow> (Inl err, fsys3)
                        | (None, fsys3) \<Rightarrow> (Inr offset, fsys3)))))"

section \<open>The precedence order in the words of the specification\<close>

text \<open>
  The specification asks for the legacy injection to be a finite table from platform
  identifier and version to a property set, and lists the layers in their order. The
  definitions below follow those words; the theorems compare them with the code.
\<close>
definition samdLegacyDebugProperties :: props where
  "samdLegacyDebugProperties = map_of
     [(''debug.executable'', ''{build.path}/{build.project_name}.elf''),
      (''debug.toolchain'', ''gcc''),
      (''debug.toolchain.path'', ''{runtime.tools.arm-none-eabi-gcc-7-2017q4.path}/bin/''),
      (''debug.toolchain.prefix'', ''arm-none-eabi-''),
      (''debug.server'', ''openocd''),
      (''debug.server.openocd.path'', ''{runtime.tools.openocd-0.10.0-arduino7.path}/bin/openocd''),
      (''debug.server.openocd.scripts_dir'', ''{runtime.tools.openocd-0.10.0-arduino7.path}/share/openocd/scripts/''),
      (''debug.server.openocd.script'', ''{runtime.platform.path}/variants/{build.variant}/{build.openocdscript}'')]"

definition legacyDebugTable :: "string \<Rightarrow> props option" where
  "legacyDebugTable ident =
     (if ident = ''arduino:samd@1.8.9'' \<or> ident = ''arduino:samd@1.8.8''
      then Some samdLegacyDebugProperties else None)"

definition selectedProgrammer ::
  "DebugConfigRequest \<Rightarrow> PlatformRelease \<Rightarrow> PlatformRelease option \<Rightarrow> Programmer option" where
  "selectedProgrammer req platformRelease referencedPlatformRelease =
     (if GetProgrammer req = [] then None
      else case Programmers platformRelease (GetProgrammer req) of
             Some p \<Rightarrow> Some p
           | None \<Rightarrow>
               (case referencedPlatformRelease of
                  None \<Rightarrow> None
                | Some r \<Rightarrow> Programmers r (GetProgrammer req)))"

definition platformAndBoardLayers ::
  "PlatformRelease \<Rightarrow> props \<Rightarrow> PlatformRelease option \<Rightarrow> props list" where
  "platformAndBoardLayers platformRelease boardProperties referencedPlatformRelease =
     (case referencedPlatformRelease of None \<Rightarrow> [] | Some r \<Rightarrow> [Properties r])
     @ [Properties platformRelease, RuntimeProperties platformRelease, boardProperties]"

definition toolAndProgrammerLayers ::
  "('fqbn, 'board) PackageManager \<Rightarrow> DebugConfigRequest \<Rightarrow> PlatformRelease \<Rightarrow> 'board \<Rightarrow>
     PlatformRelease option \<Rightarrow> props list" where
  "toolAndProgrammerLayers pm req platformRelease board referencedPlatformRelease =
     map ToolRelease.RuntimeProperties (GetAllInstalledToolsReleases pm)
     @ (case FindToolsRequiredForBoard pm board of
          Inl err \<Rightarrow> []
        | Inr requiredTools \<Rightarrow> map ToolRelease.RuntimeProperties requiredTools)
     @ (case selectedProgrammer req platformRelease referencedPlatformRelease of
          None \<Rightarrow> []
        | Some p \<Rightarrow> [Programmer.Properties p])"

definition specLayers ::
  "('fqbn, 'board) PackageManager \<Rightarrow> DebugConfigRequest \<Rightarrow> PlatformRelease \<Rightarrow> 'board \<Rightarrow> props \<Rightarrow>
     PlatformRelease option \<Rightarrow> props list" where
  "specLayers pm req platformRelease board boardProperties referencedPlatformRelease =
     platformAndBoardLayers platformRelease boardProperties referencedPlatformRelease
     @ toolAndProgrammerLayers pm req platformRelease board referencedPlatformRelease"

definition legacyLayer :: "PlatformRelease \<Rightarrow> props \<Rightarrow> PlatformRelease option \<Rightarrow> props list" where
  "legacyLayer platformRelease boardProperties referencedPlatformRelease =
     (if ContainsKey
           (foldl Merge NewMap
              (platformAndBoardLayers platformRelease boardProperties referencedPlatformRelease))
           ''debug.executable''
      then []
      else case legacyDebugTable (PlatformString platformRelease) of
             None \<Rightarrow> []
           | Some legacy \<Rightarrow> [legacy])"

definition resolverLayers ::
  "('fqbn, 'board) PackageManager \<Rightarrow> DebugConfigRequest \<Rightarrow> PlatformRelease \<Rightarrow> 'board \<Rightarrow> props \<Rightarrow>
     PlatformRelease option \<Rightarrow> props list" where
  "resolverLayers pm req platformRelease board boardProperties referencedPlatformRelease =
     platformAndBoardLayers platformRelease boardProperties referencedPlatformRelease
     @ legacyLayer platformRelease boardProperties referencedPlatformRelease
     @ toolAndProgrammerLayers pm req platformRelease board referencedPlatformRelease"

text \<open>The value of a key in the outcome of the merge (empty when the merge failed).\<close>
definition GetMerged :: "error + props \<Rightarrow> string \<Rightarrow> string" where
  "GetMerged r k = (case r of Inl err \<Rightarrow> [] | Inr m \<Rightarrow> Get m k)"

section \<open>Example inputs\<close>

definition exSamdPlatform :: PlatformRelease where
  "exSamdPlatform =
     \<lparr> Properties = [''debug.toolchain'' \<mapsto> ''a''],
       RuntimeProperties = Map.empty,
       Programmers = Map.empty,
       PlatformString = ''arduino:samd@1.8.9'' \<rparr>"

definition exSamdBoardProperties :: props where
  "exSamdBoardProperties = [''debug.toolchain'' \<mapsto> ''b'']"

definition exSamdPM :: "(unit, unit) PackageManager" where
  "exSamdPM =
     \<lparr> ResolveFQBN = (\<lambda>fqbn. Inr (exSamdPlatform, (), exSamdBoardProperties, None)),
       GetAllInstalledToolsReleases = [],
       FindToolsRequiredForBoard = (\<lambda>board. Inr []) \<rparr>"

definition exSamdReq :: DebugConfigRequest where
  "exSamdReq =
     \<lparr> GetSketchPath = ''/s/Blink'', GetFqbn = ''arduino:samd:mkr1000'', GetProgrammer = [],
       GetImportDir = [], GetPort = None \<rparr>"

definition exAvrReferenced :: PlatformRelease where
  "exAvrReferenced =
     \<lparr> Properties = [''upload.tool'' \<mapsto> ''referenced'', ''build.core'' \<mapsto> ''arduino''],
       RuntimeProperties = Map.empty,
       Programmers = [''atmel_ice'' \<mapsto> \<lparr> Programmer.Properties = [''upload.tool'' \<mapsto> ''referenced-programmer''] \<rparr>],
       PlatformString = ''arduino:avr@1.8.3'' \<rparr>"

definition exAvrPlatform :: PlatformRelease where
  "exAvrPlatform =
     \<lparr> Properties = [''upload.tool'' \<mapsto> ''platform''],
       RuntimeProperties = [''runtime.platform.path'' \<mapsto> ''/p/avr''],
       Programmers = [''atmel_ice'' \<mapsto> \<lparr> Programmer.Properties = [''upload.tool'' \<mapsto> ''owning-programmer''] \<rparr>],
       PlatformString = ''vendor:avr@1.0.0'' \<rparr>"

definition exAvrBoardProperties :: props where
  "exAvrBoardProperties = [''upload.tool'' \<mapsto> ''board'', ''debug.executable'' \<mapsto> ''{build.path}/x.elf'']"

definition exAvrPM :: "(unit, unit) PackageManager" where
  "exAvrPM =
     \<lparr> ResolveFQBN = (\<lambda>fqbn. Inr (exAvrPlatform, (), exAvrBoardProperties, Some exAvrReferenced)),
       GetAllInstalledToolsReleases =
         [\<lparr> ToolRelease.RuntimeProperties = [''upload.tool'' \<mapsto> ''installed''] \<rparr>],
       FindToolsRequiredForBoard =
         (\<lambda>board. Inr [\<lparr> ToolRelease.RuntimeProperties = [''runtime.tools.avrdude.path'' \<mapsto> ''/t/avrdude''] \<rparr>]) \<rparr>"

definition exAvrReq :: DebugConfigRequest where
  "exAvrReq =
     \<lparr> GetSketchPath = ''/s/Blink'', GetFqbn = ''vendor:avr:uno'', GetProgrammer = ''atmel_ice'',
       GetImportDir = [], GetPort = None \<rparr>"

definition exSketch :: Sketch where
  "exSketch =
     \<lparr> Name = ''Blink'', FullPath = ''/s/Blink'', MainFile = ''/s/Blink/Blink.ino'',
       OtherSketchFiles = [], AdditionalFiles = [], BuildPath = ''/tmp/b'', Metadata = None \<rparr>"

definition exFS :: FileSystem where
  "exFS =
     \<lparr> files = Map.empty, dirs = {''/tmp/b''}, readFails = (\<lambda>p. False),
       writeFails = (\<lambda>p. False), mkdirFails = (\<lambda>p. False),
       relTo = (\<lambda>root p. Inr (TrimPrefix p (root @ ''/''))), writeLog = [] \<rparr>"

definition exEnv :: "unit Env" where
  "exEnv = \<lparr> sketch_New = (\<lambda>p. Inr exSketch), ParseFQBN = (\<lambda>s. Inr ()), fs = exFS \<rparr>"

definition exNoProgrammerReq :: DebugConfigRequest where
  "exNoProgrammerReq =
     \<lparr> GetSketchPath = ''/s/Blink'', GetFqbn = ''arduino:samd:mkr1000'',
       GetProgrammer = ''nonexistent'', GetImportDir = [], GetPort = None \<rparr>"

definition exMetaSketch :: Sketch where
  "exMetaSketch =
     \<lparr> Name = ''Blink'', FullPath = ''/s/Blink'', MainFile = ''/s/Blink/Blink.ino'',
       OtherSketchFiles = [], AdditionalFiles = [], BuildPath = ''/tmp/b'',
       Metadata = Some \<lparr> CPU_Fqbn = ''arduino:avr:uno'' \<rparr> \<rparr>"

definition exMetaEnv :: "string Env" where
  "exMetaEnv =
     \<lparr> sketch_New = (\<lambda>p. Inr exMetaSketch),
       ParseFQBN = (\<lambda>s. if s = ''arduino:avr:uno'' then Inr s else Inl (Errorf ''invalid fqbn'')),
       fs = exFS \<rparr>"

definition exUnoPlatform :: PlatformRelease where
  "exUnoPlatform =
     \<lparr> Properties = [''name'' \<mapsto> ''Arduino AVR Boards''],
       RuntimeProperties = Map.empty,
       Programmers = Map.empty,
       PlatformString = ''arduino:avr@1.8.3'' \<rparr>"

definition exMetaPM :: "(string, unit) PackageManager" where
  "exMetaPM =
     \<lparr> ResolveFQBN =
         (\<lambda>fqbn. if fqbn = ''arduino:avr:uno''
                 then Inr (exUnoPlatform, (), [''build.mcu'' \<mapsto> ''atmega328p''], Some exUnoPlatform)
                 else Inl (Errorf ''unknown board'')),
       GetAllInstalledToolsReleases = [],
       FindToolsRequiredForBoard = (\<lambda>board. Inr []) \<rparr>"

definition exMetaReq :: DebugConfigRequest where
  "exMetaReq =
     \<lparr> GetSketchPath = ''/s/Blink'', GetFqbn = [], GetProgrammer = [],
       GetImportDir = [], GetPort = None \<rparr>"

definition exPortReq :: DebugConfigRequest where
  "exPortReq =
     \<lparr> GetSketchPath = ''/s/Blink'', GetFqbn = ''arduino:samd:mkr1000'', GetProgrammer = [],
       GetImportDir = [], GetPort = Some \<lparr> Address = ''COM3'' \<rparr> \<rparr>"

definition exBuildSketch :: Sketch where
  "exBuildSketch =
     \<lparr> Name = ''Sketch'', FullPath = ''.'', MainFile = ''Sketch.ino'',
       OtherSketchFiles = [''extra.ino''], AdditionalFiles = [''data.txt''],
       BuildPath = ''build'', Metadata = None \<rparr>"

definition exBuildFS :: FileSystem where
  "exBuildFS =
     \<lparr> files = [''Sketch.ino'' \<mapsto> ''void setup(){}'', ''extra.ino'' \<mapsto> ''void loop(){}'',
                ''data.txt'' \<mapsto> ''hello''],
       dirs = {}, readFails = (\<lambda>p. False), writeFails = (\<lambda>p. False),
       mkdirFails = (\<lambda>p. False),
       relTo = (\<lambda>root p. if root = ''.'' then Inr p else Inl (Errorf ''no relative path'')),
       writeLog = [] \<rparr>"

definition exIncludeOverride :: "string \<rightharpoonup> string" where
  "exIncludeOverride = [''Sketch.ino'' \<mapsto> ''  #  include '' @ [CHR 0x22] @ ''Arduino.h'' @ [CHR 0x22]]"

definition exScenarioSketch :: Sketch where
  "exScenarioSketch =
     \<lparr> Name = ''Sketch'', FullPath = ''.'', MainFile = ''Sketch.ino'',
       OtherSketchFiles = [], AdditionalFiles = [''data.txt''],
       BuildPath = ''build'', Metadata = None \<rparr>"

definition exSamdProgPlatform :: PlatformRelease where
  "exSamdProgPlatform =
     \<lparr> Properties = [''debug.toolchain'' \<mapsto> ''a''],
       RuntimeProperties = Map.empty,
       Programmers = [''jlink'' \<mapsto> \<lparr> Programmer.Properties = [''debug.executable'' \<mapsto> ''custom.elf''] \<rparr>],
       PlatformString = ''arduino:samd@1.8.9'' \<rparr>"

definition exSamdProgReq :: DebugConfigRequest where
  "exSamdProgReq =
     \<lparr> GetSketchPath = ''/s/Blink'', GetFqbn = ''arduino:samd:mkr1000'', GetProgrammer = ''jlink'',
       GetImportDir = [], GetPort = None \<rparr>"

definition exDirSketch :: Sketch where
  "exDirSketch =
     \<lparr> Name = ''Sketch'', FullPath = ''/s/Sketch'', MainFile = ''/s/Sketch/Sketch.ino'',
       OtherSketchFiles = [], AdditionalFiles = [''/s/Sketch/data.txt''],
       BuildPath = ''/tmp/build'', Metadata = None \<rparr>"

definition exDirFS :: FileSystem where
  "exDirFS =
     \<lparr> files = [''/s/Sketch/Sketch.ino'' \<mapsto> ''void setup(){}'',
                ''/s/Sketch/data.txt'' \<mapsto> ''hello''],
       dirs = {''/s/Sketch''}, readFails = (\<lambda>p. False), writeFails = (\<lambda>p. False),
       mkdirFails = (\<lambda>p. False),
       relTo = (\<lambda>root p. if prefix (root @ ''/'') p then Inr (drop (length root + 1) p)
                         else Inl (Errorf ''no relative path'')),
       writeLog = [] \<rparr>"

section \<open>Properties of the property store and of the merge\<close>

lemma Merge_apply: "Merge m other k = (case other k of None \<Rightarrow> m k | Some v \<Rightarrow> Some v)"
  by (simp add: Merge_def map_add_def)

lemma Merge_None: "other k = None \<Longrightarrow> Merge m other k = m k"
  by (simp add: Merge_apply)

lemma Merge_Some: "other k = Some v \<Longrightarrow> Merge m other k = Some v"
  by (simp add: Merge_apply)

lemma foldl_Merge_snoc: "foldl Merge m (xs @ [x]) = Merge (foldl Merge m xs) x"
  by simp

lemma foldl_Merge_last:
  "i < length L \<Longrightarrow> (L ! i) k = Some v \<Longrightarrow> (\<forall>j. i < j \<and> j < length L \<longrightarrow> (L ! j) k = None)
     \<Longrightarrow> foldl Merge m L k = Some v"
proof (induction L arbitrary: i rule: rev_induct)
  case Nil
  then show ?case by simp
next
  case (snoc x xs)
  show ?case
  proof (cases "i = length xs")
    case True
    with snoc.prems show ?thesis by (simp add: Merge_Some)
  next
    case False
    with snoc.prems have i: "i < length xs" by simp
    from snoc.prems(3) have xk: "x k = None"
      using i by (metis length_append_singleton lessI nth_append_length)
    have "foldl Merge m xs k = Some v"
    proof (rule snoc.IH[OF i])
      show "(xs ! i) k = Some v" using snoc.prems(2) i by (simp add: nth_append)
      show "\<forall>j. i < j \<and> j < length xs \<longrightarrow> (xs ! j) k = None"
        using snoc.prems(3) by (metis length_append_singleton less_Suc_eq nth_append)
    qed
    with xk show ?thesis by (simp add: Merge_None)
  qed
qed

lemma mergeTools_foldl:
  "mergeTools tp tools = foldl Merge tp (map ToolRelease.RuntimeProperties tools)"
  by (simp add: mergeTools_def foldl_map)

lemma samdHotfix_table:
  "samdHotfix platformRelease toolProperties =
     (case legacyDebugTable (PlatformString platformRelease) of
        None \<Rightarrow> toolProperties
      | Some legacy \<Rightarrow>
          if ContainsKey toolProperties ''debug.executable'' then toolProperties
          else Merge toolProperties legacy)"
proof -
  have "(let tp = SetKey toolProperties ''debug.executable'' ''{build.path}/{build.project_name}.elf'';
                tp = SetKey tp ''debug.toolchain'' ''gcc'';
                tp = SetKey tp ''debug.toolchain.path'' ''{runtime.tools.arm-none-eabi-gcc-7-2017q4.path}/bin/'';
                tp = SetKey tp ''debug.toolchain.prefix'' ''arm-none-eabi-'';
                tp = SetKey tp ''debug.server'' ''openocd'';
                tp = SetKey tp ''debug.server.openocd.path'' ''{runtime.tools.openocd-0.10.0-arduino7.path}/bin/openocd'';
                tp = SetKey tp ''debug.server.openocd.scripts_dir'' ''{runtime.tools.openocd-0.10.0-arduino7.path}/share/openocd/scripts/''
            in SetKey tp ''debug.server.openocd.script'' ''{runtime.platform.path}/variants/{build.variant}/{build.openocdscript}'')
        = Merge toolProperties samdLegacyDebugProperties"
    by (rule ext) (simp add: Let_def SetKey_def Merge_apply samdLegacyDebugProperties_def)
  then show ?thesis
    by (simp add: samdHotfix_def legacyDebugTable_def)
qed

lemma platformLayers_foldl:
  "platformLayers pr bp ref = foldl Merge NewMap (platformAndBoardLayers pr bp ref)"
  by (cases ref) (simp_all add: platformLayers_def platformAndBoardLayers_def Let_def)

lemma samdHotfix_foldl:
  "samdHotfix pr (platformLayers pr bp ref) =
     foldl Merge NewMap (platformAndBoardLayers pr bp ref @ legacyLayer pr bp ref)"
  by (simp add: samdHotfix_table legacyLayer_def platformLayers_foldl split: option.splits)

lemma toolLayers_foldl:
  "toolLayers pm board tp =
     foldl Merge tp
       (map ToolRelease.RuntimeProperties (GetAllInstalledToolsReleases pm)
        @ (case FindToolsRequiredForBoard pm board of
             Inl err \<Rightarrow> []
           | Inr requiredTools \<Rightarrow> map ToolRelease.RuntimeProperties requiredTools))"
  by (simp add: toolLayers_def Let_def mergeTools_foldl split: sum.splits)

lemma programmerLayer_selected:
  "programmerLayer req pr ref tp = Inr m \<Longrightarrow>
     m = foldl Merge tp (case selectedProgrammer req pr ref of
                           None \<Rightarrow> [] | Some p \<Rightarrow> [Programmer.Properties p])"
  by (auto simp: programmerLayer_def selectedProgrammer_def split: if_splits option.splits)

lemma mergedToolProperties_layers:
  assumes "mergedToolProperties pm req pr board bp ref = Inr m"
  shows "m = foldl Merge NewMap (resolverLayers pm req pr board bp ref)"
proof -
  let ?tp = "toolLayers pm board (samdHotfix pr (platformLayers pr bp ref))"
  from assms have "programmerLayer req pr ref ?tp = Inr m"
    by (simp add: mergedToolProperties_def)
  then have "m = foldl Merge ?tp (case selectedProgrammer req pr ref of
                           None \<Rightarrow> [] | Some p \<Rightarrow> [Programmer.Properties p])"
    by (rule programmerLayer_selected)
  then show ?thesis
    by (simp only: toolLayers_foldl samdHotfix_foldl resolverLayers_def
          toolAndProgrammerLayers_def foldl_append append_assoc)
qed

text \<open>
  C1 (as amended). Whenever the resolver gets as far as a merged store, that store is the
  left-to-right merge of the layers in this order: referenced platform properties (when
  there is a referenced platform), owning platform properties, owning platform runtime
  properties, board properties, the hardcoded legacy debug properties (only for the
  legacy platform identifiers, and only when the four layers before hold no
  \<^verbatim>\<open>debug.executable\<close>), the runtime properties of every installed tool release, those
  of each tool the board requires in their order, and the properties of the selected
  programmer when one is requested. A key's value is the one of the last layer of that
  list that holds the key.
\<close>
theorem merged_store_precedence:
  assumes "mergedToolProperties pm req pr board bp ref = Inr m"
  shows "m = foldl Merge NewMap (resolverLayers pm req pr board bp ref) \<and>
         (\<forall>i k v. i < length (resolverLayers pm req pr board bp ref) \<and>
                  (resolverLayers pm req pr board bp ref ! i) k = Some v \<and>
                  (\<forall>j. i < j \<and> j < length (resolverLayers pm req pr board bp ref)
                        \<longrightarrow> (resolverLayers pm req pr board bp ref ! j) k = None)
              \<longrightarrow> Get m k = v)"
proof -
  have m: "m = foldl Merge NewMap (resolverLayers pm req pr board bp ref)"
    using assms by (rule mergedToolProperties_layers)
  show ?thesis
  proof (intro conjI allI impI)
    show "m = foldl Merge NewMap (resolverLayers pm req pr board bp ref)" by (rule m)
  next
    fix i k v
    assume h: "i < length (resolverLayers pm req pr board bp ref) \<and>
                  (resolverLayers pm req pr board bp ref ! i) k = Some v \<and>
                  (\<forall>j. i < j \<and> j < length (resolverLayers pm req pr board bp ref)
                        \<longrightarrow> (resolverLayers pm req pr board bp ref ! j) k = None)"
    then have "foldl Merge NewMap (resolverLayers pm req pr board bp ref) k = Some v"
      using foldl_Merge_last by blast
    with m show "Get m k = v" by (simp add: Get_def)
  qed
qed

lemmas ex_defs = exSamdPlatform_def exSamdBoardProperties_def exSamdPM_def exSamdReq_def
  exAvrReferenced_def exAvrPlatform_def exAvrBoardProperties_def exAvrPM_def exAvrReq_def

lemmas resolver_defs = mergedToolProperties_def programmerLayer_def toolLayers_def mergeTools_def
  samdHotfix_def platformLayers_def NewMap_def SetKey_def ContainsKey_def Get_def Merge_apply

text \<open>
  C1 as stated fails on the platform \<^verbatim>\<open>arduino:samd@1.8.9\<close>: the platform layer gives
  \<^verbatim>\<open>debug.toolchain\<close> the value a, the board layer (listed later) gives it b, no
  tool and no programmer is involved, and the merged store answers gcc, the value of the
  hardcoded legacy set.
\<close>
theorem merged_store_precedence_counterexample:
  "mergedToolProperties exSamdPM exSamdReq exSamdPlatform () exSamdBoardProperties None
     \<noteq> Inr (foldl Merge NewMap
              (specLayers exSamdPM exSamdReq exSamdPlatform () exSamdBoardProperties None))
   \<and> GetMerged (mergedToolProperties exSamdPM exSamdReq exSamdPlatform () exSamdBoardProperties None)
        ''debug.toolchain'' = ''gcc''
   \<and> Get (foldl Merge NewMap
            (specLayers exSamdPM exSamdReq exSamdPlatform () exSamdBoardProperties None))
        ''debug.toolchain'' = ''b''"
proof -
  have a: "GetMerged (mergedToolProperties exSamdPM exSamdReq exSamdPlatform () exSamdBoardProperties None)
        ''debug.toolchain'' = ''gcc''"
    by (simp add: GetMerged_def ex_defs resolver_defs Let_def)
  have b: "Get (foldl Merge NewMap
            (specLayers exSamdPM exSamdReq exSamdPlatform () exSamdBoardProperties None))
        ''debug.toolchain'' = ''b''"
    by (simp add: specLayers_def platformAndBoardLayers_def toolAndProgrammerLayers_def
          selectedProgrammer_def ex_defs NewMap_def Get_def Merge_apply)
  have "mergedToolProperties exSamdPM exSamdReq exSamdPlatform () exSamdBoardProperties None
     \<noteq> Inr (foldl Merge NewMap
              (specLayers exSamdPM exSamdReq exSamdPlatform () exSamdBoardProperties None))"
  proof
    assume "mergedToolProperties exSamdPM exSamdReq exSamdPlatform () exSamdBoardProperties None
     = Inr (foldl Merge NewMap
              (specLayers exSamdPM exSamdReq exSamdPlatform () exSamdBoardProperties None))"
    then have "GetMerged (mergedToolProperties exSamdPM exSamdReq exSamdPlatform () exSamdBoardProperties None)
        ''debug.toolchain'' = Get (foldl Merge NewMap
            (specLayers exSamdPM exSamdReq exSamdPlatform () exSamdBoardProperties None))
        ''debug.toolchain''"
      by (simp add: GetMerged_def)
    with a b show False by simp
  qed
  with a b show ?thesis by simp
qed

text \<open>
  A request with a referenced platform, one installed tool, one required tool and a
  programmer of the owning platform: the programmer's value wins for a key every layer
  but the tools' sets, and a key of the referenced platform alone survives.
\<close>
theorem merged_store_precedence_witness:
  "\<exists>m. mergedToolProperties exAvrPM exAvrReq exAvrPlatform () exAvrBoardProperties (Some exAvrReferenced) = Inr m
     \<and> m = foldl Merge NewMap
             (resolverLayers exAvrPM exAvrReq exAvrPlatform () exAvrBoardProperties (Some exAvrReferenced))
     \<and> Get m ''upload.tool'' = ''owning-programmer''
     \<and> Get m ''build.core'' = ''arduino''"
proof -
  let ?L = "resolverLayers exAvrPM exAvrReq exAvrPlatform () exAvrBoardProperties (Some exAvrReferenced)"
  have L: "?L = [Properties exAvrReferenced, Properties exAvrPlatform, RuntimeProperties exAvrPlatform,
                 exAvrBoardProperties, [''upload.tool'' \<mapsto> ''installed''],
                 [''runtime.tools.avrdude.path'' \<mapsto> ''/t/avrdude''],
                 [''upload.tool'' \<mapsto> ''owning-programmer'']]"
    by (simp add: resolverLayers_def platformAndBoardLayers_def legacyLayer_def
          toolAndProgrammerLayers_def selectedProgrammer_def legacyDebugTable_def
          ex_defs NewMap_def ContainsKey_def Merge_apply)
  obtain m where m: "mergedToolProperties exAvrPM exAvrReq exAvrPlatform () exAvrBoardProperties
                       (Some exAvrReferenced) = Inr m"
    by (simp add: mergedToolProperties_def programmerLayer_def ex_defs)
  note prec = merged_store_precedence [OF m]
  from prec have eq: "m = foldl Merge NewMap ?L" by blast
  have len: "length ?L = 7" by (simp add: L)
  have a1: "6 < length ?L \<and> (?L ! 6) ''upload.tool'' = Some ''owning-programmer''"
    unfolding L by simp
  have a2: "\<forall>j. 6 < j \<and> j < length ?L \<longrightarrow> (?L ! j) ''upload.tool'' = None"
    using len by auto
  from prec a1 a2 have g1: "Get m ''upload.tool'' = ''owning-programmer''" by blast
  have b1: "0 < length ?L \<and> (?L ! 0) ''build.core'' = Some ''arduino''"
    unfolding L by (simp add: ex_defs)
  have b2: "\<forall>j. 0 < j \<and> j < length ?L \<longrightarrow> (?L ! j) ''build.core'' = None"
    unfolding L by (auto simp: ex_defs nth_Cons' less_Suc_eq)
  from prec b1 b2 have g2: "Get m ''build.core'' = ''arduino''" by blast
  from m eq g1 g2 show ?thesis by blast
qed

lemmas ex2_defs = exSketch_def exFS_def exEnv_def exNoProgrammerReq_def exMetaSketch_def
  exMetaEnv_def exUnoPlatform_def exMetaPM_def exMetaReq_def exPortReq_def

lemmas pipeline_defs = getDebugProperties_def resolveTarget_def bindBuildPath_def
  setDebugPort_def extractDebugProperties_def debugResponse_def SubTree_def SetPath_def
  Exist_def IsDir_def GetAddress_def TrimPrefix_def

section \<open>The legacy injection, the debug port and the programmer\<close>

text \<open>
  C7 (as amended). The legacy injection fires exactly when the platform string is
  \<^verbatim>\<open>arduino:samd@1.8.8\<close> or \<^verbatim>\<open>arduino:samd@1.8.9\<close> and the store merged
  from the referenced platform, platform, platform runtime and board layers has no
  \<^verbatim>\<open>debug.executable\<close>; the test comes before the tool and programmer layers are
  merged. When it fires, the merged store of the resolver is the merge of those four
  layers, the fixed set \<open>samdLegacyDebugProperties\<close>, and then the tool and programmer
  layers. When it does not fire (another platform string, or the key present in those four
  layers), the merged store is the merge of the layers alone and no hardcoded property is
  in it.
\<close>
theorem legacy_injection_before_tool_layers:
  assumes "mergedToolProperties pm req platformRelease board boardProperties referenced = Inr m"
  shows "((PlatformString platformRelease = ''arduino:samd@1.8.8''
           \<or> PlatformString platformRelease = ''arduino:samd@1.8.9'')
          \<and> \<not> ContainsKey
                (foldl Merge NewMap (platformAndBoardLayers platformRelease boardProperties referenced))
                ''debug.executable''
          \<longrightarrow> m = foldl Merge NewMap
                    (platformAndBoardLayers platformRelease boardProperties referenced
                     @ [samdLegacyDebugProperties]
                     @ toolAndProgrammerLayers pm req platformRelease board referenced))
         \<and> (\<not> ((PlatformString platformRelease = ''arduino:samd@1.8.8''
                 \<or> PlatformString platformRelease = ''arduino:samd@1.8.9'')
                \<and> \<not> ContainsKey
                      (foldl Merge NewMap (platformAndBoardLayers platformRelease boardProperties referenced))
                      ''debug.executable'')
          \<longrightarrow> m = foldl Merge NewMap
                    (specLayers pm req platformRelease board boardProperties referenced))"
proof -
  have m: "m = foldl Merge NewMap (resolverLayers pm req platformRelease board boardProperties referenced)"
    using assms by (rule mergedToolProperties_layers)
  show ?thesis
    unfolding m resolverLayers_def specLayers_def legacyLayer_def legacyDebugTable_def
    by auto
qed

lemmas ex3_defs = exSamdProgPlatform_def exSamdProgReq_def

text \<open>
  C7 as stated fails on \<^verbatim>\<open>arduino:samd@1.8.9\<close> when only the programmer brings
  \<^verbatim>\<open>debug.executable\<close>: the merge of the seven layers holds the key and has no
  \<^verbatim>\<open>debug.server\<close>, and the store of the resolver holds the programmer's
  executable together with the hardcoded server.
\<close>
theorem legacy_injection_counterexample:
  "ContainsKey
     (foldl Merge NewMap
        (specLayers exSamdPM exSamdProgReq exSamdProgPlatform () exSamdBoardProperties None))
     ''debug.executable''
   \<and> Get (foldl Merge NewMap
            (specLayers exSamdPM exSamdProgReq exSamdProgPlatform () exSamdBoardProperties None))
        ''debug.server'' = []
   \<and> GetMerged (mergedToolProperties exSamdPM exSamdProgReq exSamdProgPlatform ()
                  exSamdBoardProperties None) ''debug.executable'' = ''custom.elf''
   \<and> GetMerged (mergedToolProperties exSamdPM exSamdProgReq exSamdProgPlatform ()
                  exSamdBoardProperties None) ''debug.server'' = ''openocd''"
proof (intro conjI)
  show "ContainsKey
     (foldl Merge NewMap
        (specLayers exSamdPM exSamdProgReq exSamdProgPlatform () exSamdBoardProperties None))
     ''debug.executable''"
    by (simp add: specLayers_def platformAndBoardLayers_def toolAndProgrammerLayers_def
          selectedProgrammer_def ex_defs ex3_defs NewMap_def ContainsKey_def Merge_apply)
  show "Get (foldl Merge NewMap
            (specLayers exSamdPM exSamdProgReq exSamdProgPlatform () exSamdBoardProperties None))
        ''debug.server'' = []"
    by (simp add: specLayers_def platformAndBoardLayers_def toolAndProgrammerLayers_def
          selectedProgrammer_def ex_defs ex3_defs NewMap_def Get_def Merge_apply)
  show "GetMerged (mergedToolProperties exSamdPM exSamdProgReq exSamdProgPlatform ()
                  exSamdBoardProperties None) ''debug.executable'' = ''custom.elf''"
    by (simp add: GetMerged_def ex_defs ex3_defs resolver_defs Let_def)
  show "GetMerged (mergedToolProperties exSamdPM exSamdProgReq exSamdProgPlatform ()
                  exSamdBoardProperties None) ''debug.server'' = ''openocd''"
    by (simp add: GetMerged_def ex_defs ex3_defs resolver_defs Let_def)
qed

text \<open>
  On \<^verbatim>\<open>arduino:samd@1.8.9\<close> without debug properties the set is injected and
  reaches the response; on another platform the store is the merge of the layers.
\<close>
theorem legacy_injection_before_tool_layers_witness:
  "(\<exists>m. mergedToolProperties exSamdPM exSamdReq exSamdPlatform () exSamdBoardProperties None = Inr m
        \<and> m = foldl Merge NewMap
                (platformAndBoardLayers exSamdPlatform exSamdBoardProperties None
                 @ [samdLegacyDebugProperties]
                 @ toolAndProgrammerLayers exSamdPM exSamdReq exSamdPlatform () None)
        \<and> Get m ''debug.server'' = ''openocd'')
   \<and> (\<exists>m. mergedToolProperties exAvrPM exAvrReq exAvrPlatform () exAvrBoardProperties
              (Some exAvrReferenced) = Inr m
        \<and> m = foldl Merge NewMap
                (specLayers exAvrPM exAvrReq exAvrPlatform () exAvrBoardProperties (Some exAvrReferenced)))
   \<and> (\<exists>resp. getDebugProperties exEnv exSamdReq exSamdPM = Inr resp
        \<and> Server resp = ''openocd'' \<and> Executable resp = ''/tmp/b/Blink.ino.elf'')"
proof (intro conjI)
  obtain m where m: "mergedToolProperties exSamdPM exSamdReq exSamdPlatform () exSamdBoardProperties None = Inr m"
    by (simp add: mergedToolProperties_def programmerLayer_def exSamdReq_def)
  have fires: "(PlatformString exSamdPlatform = ''arduino:samd@1.8.8''
           \<or> PlatformString exSamdPlatform = ''arduino:samd@1.8.9'')
          \<and> \<not> ContainsKey
                (foldl Merge NewMap (platformAndBoardLayers exSamdPlatform exSamdBoardProperties None))
                ''debug.executable''"
    by (simp add: platformAndBoardLayers_def ex_defs NewMap_def ContainsKey_def Merge_apply)
  from legacy_injection_before_tool_layers [OF m] fires
  have eq: "m = foldl Merge NewMap
                (platformAndBoardLayers exSamdPlatform exSamdBoardProperties None
                 @ [samdLegacyDebugProperties]
                 @ toolAndProgrammerLayers exSamdPM exSamdReq exSamdPlatform () None)"
    by blast
  have g: "Get (foldl Merge NewMap
                (platformAndBoardLayers exSamdPlatform exSamdBoardProperties None
                 @ [samdLegacyDebugProperties]
                 @ toolAndProgrammerLayers exSamdPM exSamdReq exSamdPlatform () None))
             ''debug.server'' = ''openocd''"
    by (simp add: platformAndBoardLayers_def toolAndProgrammerLayers_def selectedProgrammer_def
          samdLegacyDebugProperties_def ex_defs NewMap_def Get_def Merge_apply)
  show "\<exists>m. mergedToolProperties exSamdPM exSamdReq exSamdPlatform () exSamdBoardProperties None = Inr m
        \<and> m = foldl Merge NewMap
                (platformAndBoardLayers exSamdPlatform exSamdBoardProperties None
                 @ [samdLegacyDebugProperties]
                 @ toolAndProgrammerLayers exSamdPM exSamdReq exSamdPlatform () None)
        \<and> Get m ''debug.server'' = ''openocd''"
    using m eq g by simp
next
  obtain m where m: "mergedToolProperties exAvrPM exAvrReq exAvrPlatform () exAvrBoardProperties
              (Some exAvrReferenced) = Inr m"
    by (simp add: mergedToolProperties_def programmerLayer_def exAvrReq_def exAvrPlatform_def)
  have nofire: "\<not> ((PlatformString exAvrPlatform = ''arduino:samd@1.8.8''
                 \<or> PlatformString exAvrPlatform = ''arduino:samd@1.8.9'')
                \<and> \<not> ContainsKey
                      (foldl Merge NewMap (platformAndBoardLayers exAvrPlatform exAvrBoardProperties (Some exAvrReferenced)))
                      ''debug.executable'')"
    by (simp add: exAvrPlatform_def)
  from legacy_injection_before_tool_layers [OF m] nofire
  have "m = foldl Merge NewMap
                (specLayers exAvrPM exAvrReq exAvrPlatform () exAvrBoardProperties (Some exAvrReferenced))"
    by blast
  with m show "\<exists>m. mergedToolProperties exAvrPM exAvrReq exAvrPlatform () exAvrBoardProperties
              (Some exAvrReferenced) = Inr m
        \<and> m = foldl Merge NewMap
                (specLayers exAvrPM exAvrReq exAvrPlatform () exAvrBoardProperties (Some exAvrReferenced))"
    by simp
next
  show "\<exists>resp. getDebugProperties exEnv exSamdReq exSamdPM = Inr resp
        \<and> Server resp = ''openocd'' \<and> Executable resp = ''/tmp/b/Blink.ino.elf''"
    by (simp add: pipeline_defs resolver_defs ex_defs ex2_defs Let_def
          ExpandPropsInString_def eval_nat_numeral)
qed

text \<open>
  C9 (as amended). With a port address the resolver sets \<^verbatim>\<open>debug.port\<close> to the
  address and always sets \<^verbatim>\<open>debug.port.file\<close>: to the address without its leading
  \<^verbatim>\<open>/dev/\<close> when it begins so, and to the address itself otherwise. Without an
  address the store is unchanged.
\<close>
theorem debug_port_binding:
  "setDebugPort req toolProperties =
     (if GetAddress (GetPort req) = [] then toolProperties
      else toolProperties
             (''debug.port'' \<mapsto> GetAddress (GetPort req),
              ''debug.port.file'' \<mapsto>
                 (if prefix ''/dev/'' (GetAddress (GetPort req))
                  then drop 5 (GetAddress (GetPort req))
                  else GetAddress (GetPort req))))"
  by (simp add: setDebugPort_def Let_def SetKey_def TrimPrefix_def eval_nat_numeral)

text \<open>
  C9 as stated fails for the address COM3, which does not begin with \<^verbatim>\<open>/dev/\<close>:
  \<^verbatim>\<open>debug.port.file\<close> is set all the same, to COM3.
\<close>
theorem debug_port_binding_counterexample:
  "setDebugPort exPortReq NewMap ''debug.port.file'' = Some ''COM3''
   \<and> \<not> prefix ''/dev/'' ''COM3''"
  by (simp add: setDebugPort_def Let_def SetKey_def TrimPrefix_def GetAddress_def exPortReq_def)

text \<open>
  C10. When the requested programmer is in the owning platform's table, the merged store
  is the store of the earlier layers merged with that programmer's properties, whatever
  the referenced platform is (also when there is none), and the result does not depend on
  the referenced platform's programmer table: any other table there gives the same result.
\<close>
theorem owning_programmer_preferred:
  assumes "GetProgrammer req \<noteq> []"
      and "Programmers platformRelease (GetProgrammer req) = Some p"
  shows "mergedToolProperties pm req platformRelease board boardProperties referenced =
           Inr (Merge (toolLayers pm board
                         (samdHotfix platformRelease
                            (platformLayers platformRelease boardProperties referenced)))
                  (Programmer.Properties p))
         \<and> mergedToolProperties pm req platformRelease board boardProperties
             (map_option (\<lambda>r. r\<lparr>Programmers := table\<rparr>) referenced) =
           mergedToolProperties pm req platformRelease board boardProperties referenced"
proof -
  have pl: "platformLayers platformRelease boardProperties
              (map_option (\<lambda>r. r\<lparr>Programmers := table\<rparr>) referenced) =
            platformLayers platformRelease boardProperties referenced"
    by (cases referenced) (simp_all add: platformLayers_def)
  from assms show ?thesis
    by (simp add: mergedToolProperties_def programmerLayer_def pl)
qed

text \<open>
  Both platforms know the programmer \<^verbatim>\<open>atmel_ice\<close>: the owning platform's value
  is the one in the merged store, and emptying the referenced platform's table changes
  nothing.
\<close>
theorem owning_programmer_preferred_witness:
  "GetProgrammer exAvrReq \<noteq> []
   \<and> Programmers exAvrPlatform (GetProgrammer exAvrReq)
       = Some \<lparr> Programmer.Properties = [''upload.tool'' \<mapsto> ''owning-programmer''] \<rparr>
   \<and> Programmers exAvrReferenced (GetProgrammer exAvrReq)
       = Some \<lparr> Programmer.Properties = [''upload.tool'' \<mapsto> ''referenced-programmer''] \<rparr>
   \<and> GetMerged (mergedToolProperties exAvrPM exAvrReq exAvrPlatform () exAvrBoardProperties
                   (Some exAvrReferenced)) ''upload.tool'' = ''owning-programmer''
   \<and> mergedToolProperties exAvrPM exAvrReq exAvrPlatform () exAvrBoardProperties
        (Some (exAvrReferenced\<lparr>Programmers := Map.empty\<rparr>)) =
      mergedToolProperties exAvrPM exAvrReq exAvrPlatform () exAvrBoardProperties
        (Some exAvrReferenced)"
proof -
  have a: "GetProgrammer exAvrReq \<noteq> []" by (simp add: exAvrReq_def)
  have b: "Programmers exAvrPlatform (GetProgrammer exAvrReq)
       = Some \<lparr> Programmer.Properties = [''upload.tool'' \<mapsto> ''owning-programmer''] \<rparr>"
    by (simp add: exAvrReq_def exAvrPlatform_def)
  have c: "Programmers exAvrReferenced (GetProgrammer exAvrReq)
       = Some \<lparr> Programmer.Properties = [''upload.tool'' \<mapsto> ''referenced-programmer''] \<rparr>"
    by (simp add: exAvrReq_def exAvrReferenced_def)
  note own = owning_programmer_preferred [OF a b, where pm = exAvrPM and board = "()"
      and boardProperties = exAvrBoardProperties and table = Map.empty
      and referenced = "Some exAvrReferenced"]
  from own have d: "GetMerged (mergedToolProperties exAvrPM exAvrReq exAvrPlatform () exAvrBoardProperties
                   (Some exAvrReferenced)) ''upload.tool'' = ''owning-programmer''"
    by (simp add: GetMerged_def Get_def Merge_apply)
  from own have e: "mergedToolProperties exAvrPM exAvrReq exAvrPlatform () exAvrBoardProperties
        (Some (exAvrReferenced\<lparr>Programmers := Map.empty\<rparr>)) =
      mergedToolProperties exAvrPM exAvrReq exAvrPlatform () exAvrBoardProperties
        (Some exAvrReferenced)"
    by simp
  from a b c d e show ?thesis by blast
qed

section \<open>Extraction and expansion of the debug subtree\<close>

lemma expandPass_no_brace: "CHR ''{'' \<notin> set s \<Longrightarrow> expandPass m None s = s"
  by (induction s) auto

lemma expandUpTo_fixed: "expandPass m None s = s \<Longrightarrow> expandUpTo n m s = s"
  by (cases n) (simp_all add: Let_def)

lemma expandUpTo_step:
  "expandPass m None s = s' \<Longrightarrow> expandUpTo n m s' = s' \<Longrightarrow> expandUpTo (Suc n) m s = s'"
  by (simp add: Let_def)

lemma expand_build_path:
  assumes "m ''build.path'' = Some p" and "CHR ''{'' \<notin> set p"
  shows "ExpandPropsInString m ''{build.path}'' = p"
proof -
  have one: "expandPass m None ''{build.path}'' = p"
    using assms(1) by (simp add: Get_def)
  have fixed: "expandUpTo 9 m p = p"
    using assms(2) by (simp add: expandUpTo_fixed expandPass_no_brace)
  have "expandUpTo (Suc 9) m ''{build.path}'' = p"
    by (rule expandUpTo_step [OF one fixed])
  then show ?thesis by (simp add: ExpandPropsInString_def)
qed

lemma getDebugProperties_stages:
  assumes "resolveTarget env pm req = Inr (sk, pr, board, bp, ref)"
      and "mergedToolProperties pm req pr board bp ref = Inr merged"
      and "bindBuildPath (fs env) req sk merged = Inr bound"
  shows "getDebugProperties env req pm =
           debugResponse req (extractDebugProperties (setDebugPort req bound))"
  using assms by (simp add: getDebugProperties_def)

lemma extractDebugProperties_apply:
  "extractDebugProperties tp k = map_option (ExpandPropsInString tp) (tp (''debug.'' @ k))"
  by (simp add: extractDebugProperties_def SubTree_def split: option.splits)

lemma debugResponse_no_executable:
  "tp ''debug.executable'' = None \<Longrightarrow>
     debugResponse req (extractDebugProperties tp) =
       Inl (StatusError Unimplemented (''debugging not supported for board '' @ GetFqbn req))"
  by (simp add: debugResponse_def ContainsKey_def extractDebugProperties_apply)

lemma debugResponse_executable:
  "tp ''debug.executable'' = Some v \<Longrightarrow>
     \<exists>resp. debugResponse req (extractDebugProperties tp) = Inr resp
            \<and> Executable resp = ExpandPropsInString tp v"
  by (simp add: debugResponse_def ContainsKey_def extractDebugProperties_apply Get_def Let_def)

lemma bindBuildPath_build_path:
  "bindBuildPath fsys req sk merged = Inr bound \<Longrightarrow>
     bound ''build.path'' = Some (if GetImportDir req \<noteq> [] then GetImportDir req else BuildPath sk)"
  by (auto simp: bindBuildPath_def Let_def SetKey_def SetPath_def split: if_splits)

lemma setDebugPort_build_path: "setDebugPort req tp ''build.path'' = tp ''build.path''"
  by (simp add: setDebugPort_def Let_def SetKey_def)

text \<open>
  C6. When the target is resolved, the layers merged and the build path bound, the debug
  configuration comes from the store with the port bound: every key under
  \<^verbatim>\<open>debug.\<close> appears without the prefix, its value expanded by
  \<open>ExpandPropsInString\<close> of that whole store, not of the subtree. So the executable of
  the response is the expansion of \<^verbatim>\<open>debug.executable\<close> in the whole store, and
  \<^verbatim>\<open>{build.path}\<close> expands to the import path bound at line 128 (a path without
  braces).
\<close>
theorem debug_subtree_expanded_in_full_store:
  assumes "resolveTarget env pm req = Inr (sk, pr, board, bp, ref)"
      and "mergedToolProperties pm req pr board bp ref = Inr merged"
      and "bindBuildPath (fs env) req sk merged = Inr bound"
  shows "getDebugProperties env req pm =
           debugResponse req (extractDebugProperties (setDebugPort req bound))
         \<and> (\<forall>k. extractDebugProperties (setDebugPort req bound) k =
                  map_option (ExpandPropsInString (setDebugPort req bound))
                    (setDebugPort req bound (''debug.'' @ k)))
         \<and> (\<forall>v. setDebugPort req bound ''debug.executable'' = Some v \<longrightarrow>
                  (\<exists>resp. getDebugProperties env req pm = Inr resp
                          \<and> Executable resp = ExpandPropsInString (setDebugPort req bound) v))
         \<and> (CHR ''{'' \<notin> set (if GetImportDir req \<noteq> [] then GetImportDir req else BuildPath sk) \<longrightarrow>
              ExpandPropsInString (setDebugPort req bound) ''{build.path}'' =
                (if GetImportDir req \<noteq> [] then GetImportDir req else BuildPath sk))"
proof -
  note st = getDebugProperties_stages [OF assms]
  have bp: "setDebugPort req bound ''build.path'' =
              Some (if GetImportDir req \<noteq> [] then GetImportDir req else BuildPath sk)"
    using bindBuildPath_build_path [OF assms(3)] by (simp only: setDebugPort_build_path)
  show ?thesis
  proof (intro conjI allI impI)
    show "getDebugProperties env req pm =
           debugResponse req (extractDebugProperties (setDebugPort req bound))" by (rule st)
  next
    fix k
    show "extractDebugProperties (setDebugPort req bound) k =
                  map_option (ExpandPropsInString (setDebugPort req bound))
                    (setDebugPort req bound (''debug.'' @ k))"
      by (rule extractDebugProperties_apply)
  next
    fix v assume "setDebugPort req bound ''debug.executable'' = Some v"
    from debugResponse_executable [where tp = "setDebugPort req bound" and v = v and req = req, OF this] st
    show "\<exists>resp. getDebugProperties env req pm = Inr resp
                          \<and> Executable resp = ExpandPropsInString (setDebugPort req bound) v"
      by simp
  next
    assume "CHR ''{'' \<notin> set (if GetImportDir req \<noteq> [] then GetImportDir req else BuildPath sk)"
    with bp show "ExpandPropsInString (setDebugPort req bound) ''{build.path}'' =
                (if GetImportDir req \<noteq> [] then GetImportDir req else BuildPath sk)"
      by (rule expand_build_path)
  qed
qed

text \<open>
  The board sets \<^verbatim>\<open>debug.executable\<close> to \<^verbatim>\<open>{build.path}/x.elf\<close>; the
  build path \<^verbatim>\<open>/tmp/b\<close> is in no layer, only in the whole store.
\<close>
theorem debug_subtree_expanded_in_full_store_witness:
  "\<exists>resp. getDebugProperties exEnv exAvrReq exAvrPM = Inr resp
          \<and> Executable resp = ''/tmp/b/x.elf''"
proof -
  let ?M = "Merge (toolLayers exAvrPM ()
                     (samdHotfix exAvrPlatform
                        (platformLayers exAvrPlatform exAvrBoardProperties (Some exAvrReferenced))))
              [''upload.tool'' \<mapsto> ''owning-programmer'']"
  let ?B = "SetKey (SetPath ?M ''build.path'' ''/tmp/b'') ''build.project_name'' ''Blink.ino''"
  have r: "resolveTarget exEnv exAvrPM exAvrReq =
             Inr (exSketch, exAvrPlatform, (), exAvrBoardProperties, Some exAvrReferenced)"
    by (simp add: resolveTarget_def exEnv_def exAvrReq_def exAvrPM_def)
  have m: "mergedToolProperties exAvrPM exAvrReq exAvrPlatform () exAvrBoardProperties
             (Some exAvrReferenced) = Inr ?M"
    by (simp add: mergedToolProperties_def programmerLayer_def exAvrReq_def exAvrPlatform_def)
  have b: "bindBuildPath (fs exEnv) exAvrReq exSketch ?M = Inr ?B"
    by (simp add: bindBuildPath_def Let_def Exist_def IsDir_def exEnv_def exFS_def
          exAvrReq_def exSketch_def)
  note full = debug_subtree_expanded_in_full_store [OF r m b]
  have port: "setDebugPort exAvrReq ?B = ?B"
    by (simp add: setDebugPort_def GetAddress_def exAvrReq_def)
  have exe: "?B ''debug.executable'' = Some ''{build.path}/x.elf''"
    by (simp add: SetKey_def SetPath_def Merge_apply toolLayers_def mergeTools_def
          samdHotfix_def platformLayers_def ContainsKey_def NewMap_def Let_def ex_defs)
  have bpath: "?B ''build.path'' = Some ''/tmp/b''"
    by (simp add: SetKey_def SetPath_def)
  have ex: "ExpandPropsInString ?B ''{build.path}/x.elf'' = ''/tmp/b/x.elf''"
    using bpath by (simp add: ExpandPropsInString_def eval_nat_numeral Let_def Get_def)
  from full have "\<forall>v. setDebugPort exAvrReq ?B ''debug.executable'' = Some v \<longrightarrow>
                  (\<exists>resp. getDebugProperties exEnv exAvrReq exAvrPM = Inr resp
                          \<and> Executable resp = ExpandPropsInString (setDebugPort exAvrReq ?B) v)"
    by blast
  then have "\<forall>v. ?B ''debug.executable'' = Some v \<longrightarrow>
                  (\<exists>resp. getDebugProperties exEnv exAvrReq exAvrPM = Inr resp
                          \<and> Executable resp = ExpandPropsInString ?B v)"
    by (simp only: port)
  with exe have "\<exists>resp. getDebugProperties exEnv exAvrReq exAvrPM = Inr resp
                          \<and> Executable resp = ExpandPropsInString ?B ''{build.path}/x.elf''"
    by blast
  then show ?thesis by (simp only: ex)
qed

lemma programmerLayer_not_found:
  assumes "GetProgrammer req \<noteq> []"
      and "Programmers platformRelease (GetProgrammer req) = None"
      and "Programmers r (GetProgrammer req) = None"
  shows "programmerLayer req platformRelease (Some r) toolProperties =
           Inl (Errorf (''programmer '' @ [CHR 0x27] @ GetProgrammer req @ [CHR 0x27] @ '' not found''))"
  using assms by (simp add: programmerLayer_def)

lemma programmerLayer_referenced:
  assumes "GetProgrammer req \<noteq> []"
      and "Programmers platformRelease (GetProgrammer req) = None"
      and "Programmers r (GetProgrammer req) = Some refP"
  shows "programmerLayer req platformRelease (Some r) toolProperties =
           Inr (Merge toolProperties (Programmer.Properties refP))"
  using assms by (simp add: programmerLayer_def)

text \<open>
  C2, at an input where the code departs from it. The request has no FQBN, the sketch
  metadata names the board \<^verbatim>\<open>arduino:avr:uno\<close>, and the board has no debug
  properties. The error is of the Unimplemented kind, as claimed, but its message is built
  from the request's FQBN field and names no board.
\<close>
theorem unsupported_names_request_fqbn:
  "getDebugProperties exMetaEnv exMetaReq exMetaPM =
     Inl (StatusError Unimplemented ''debugging not supported for board '')
   \<and> Metadata exMetaSketch = Some \<lparr> CPU_Fqbn = ''arduino:avr:uno'' \<rparr>"
  by (simp add: pipeline_defs resolver_defs ex2_defs Let_def)

text \<open>
  C3, at an input where the code departs from it. The programmer \<^verbatim>\<open>nonexistent\<close>
  is not in the owning platform's table and there is no referenced platform: the lookup
  in the referenced platform's table dereferences nil, and the result is the panic, not
  the error that names the programmer.
\<close>
theorem programmer_lookup_nil_referenced:
  "getDebugProperties exEnv exNoProgrammerReq exSamdPM = Inl NilPointerDereference"
  by (simp add: pipeline_defs resolver_defs ex2_defs ex_defs Let_def)

lemma getSource_others [simp]:
  "getSource (sk\<lparr>OtherSketchFiles := others\<rparr>) overrides fsys f = getSource sk overrides fsys f"
  by (simp add: getSource_def)

lemma mergeOtherSketchFiles_sketch:
  "mergeOtherSketchFiles (sk\<lparr>OtherSketchFiles := others\<rparr>) overrides fsys fls acc =
     mergeOtherSketchFiles sk overrides fsys fls acc"
  by (induction fls arbitrary: acc) (simp_all split: sum.splits)

lemma mergeOtherSketchFiles_prefix:
  "mergeOtherSketchFiles sk overrides fsys fls acc = Inr mtext \<Longrightarrow> prefix acc mtext"
proof (induction fls arbitrary: acc)
  case Nil
  then show ?case by simp
next
  case (Cons f fls)
  then obtain src where src: "getSource sk overrides fsys f = Inr src"
    by (auto split: sum.splits)
  with Cons.prems have
    "mergeOtherSketchFiles sk overrides fsys fls
       (acc @ ''#line 1 '' @ QuoteString f @ [CHR 0x0A] @ src @ [CHR 0x0A]) = Inr mtext"
    by simp
  then have "prefix (acc @ ''#line 1 '' @ QuoteString f @ [CHR 0x0A] @ src @ [CHR 0x0A]) mtext"
    by (rule Cons.IH)
  then show ?case by (rule append_prefixD)
qed

lemma mergeOtherSketchFiles_total:
  "\<forall>f \<in> set fls. \<exists>src. getSource sk overrides fsys f = Inr src \<Longrightarrow>
     \<exists>mtext. mergeOtherSketchFiles sk overrides fsys fls acc = Inr mtext"
proof (induction fls arbitrary: acc)
  case Nil
  then show ?case by simp
next
  case (Cons f fls)
  then obtain src where src: "getSource sk overrides fsys f = Inr src" by auto
  from Cons.prems have "\<forall>f \<in> set fls. \<exists>src. getSource sk overrides fsys f = Inr src" by simp
  from Cons.IH [OF this] src show ?case by simp
qed

lemma sketchMergeSources_result:
  assumes "sketchMergeSources sk overrides fsys = Inr (off, mtext)"
      and "getSource sk overrides fsys (MainFile sk) = Inr mainSrc"
  shows "off = (if includesArduinoH mainSrc then 1 else 2) \<and>
         prefix ((if includesArduinoH mainSrc then [] else ''#include <Arduino.h>'' @ [CHR 0x0A])
                 @ ''#line 1 '' @ QuoteString (MainFile sk) @ [CHR 0x0A] @ mainSrc @ [CHR 0x0A]) mtext"
proof (cases "includesArduinoH mainSrc")
  case True
  with assms have
    "mergeOtherSketchFiles sk overrides fsys (OtherSketchFiles sk)
       (''#line 1 '' @ QuoteString (MainFile sk) @ [CHR 0x0A] @ mainSrc @ [CHR 0x0A]) = Inr mtext
     \<and> off = 1"
    by (auto simp: sketchMergeSources_def Let_def split: sum.splits)
  with True show ?thesis using mergeOtherSketchFiles_prefix by auto
next
  case False
  with assms have
    "mergeOtherSketchFiles sk overrides fsys (OtherSketchFiles sk)
       ((''#include <Arduino.h>'' @ [CHR 0x0A]) @ ''#line 1 '' @ QuoteString (MainFile sk)
          @ [CHR 0x0A] @ mainSrc @ [CHR 0x0A]) = Inr mtext
     \<and> off = 2"
    by (auto simp: sketchMergeSources_def Let_def split: sum.splits)
  with False show ?thesis using mergeOtherSketchFiles_prefix by auto
qed

lemma sketchMergeSources_total:
  assumes "getSource sk overrides fsys (MainFile sk) = Inr mainSrc"
      and "\<forall>f \<in> set (OtherSketchFiles sk). \<exists>src. getSource sk overrides fsys f = Inr src"
  shows "\<exists>off mtext. sketchMergeSources sk overrides fsys = Inr (off, mtext)"
proof -
  from mergeOtherSketchFiles_total [OF assms(2)]
  have "\<And>acc. \<exists>mtext. mergeOtherSketchFiles sk overrides fsys (OtherSketchFiles sk) acc = Inr mtext"
    by blast
  then obtain mtext where
    "mergeOtherSketchFiles sk overrides fsys (OtherSketchFiles sk)
       ((if \<not> includesArduinoH mainSrc then [] @ ''#include <Arduino.h>'' @ [CHR 0x0A] else [])
        @ ''#line 1 '' @ QuoteString (MainFile sk) @ [CHR 0x0A] @ mainSrc @ [CHR 0x0A]) = Inr mtext"
    by blast
  with assms(1) show ?thesis
    by (auto simp: sketchMergeSources_def Let_def split: if_splits)
qed

section \<open>Merging the sketch sources\<close>

text \<open>
  C4. When the main file and the other sketch files can be read, the merge succeeds. If the
  main source does not match the pattern, the offset is 2 and the merged text starts with
  the include line followed by a \<^verbatim>\<open>#line 1\<close> marker; if it matches, the offset is
  1. Whatever the list of other sketch files, a merge that succeeds returns that same
  offset.
\<close>
theorem merge_sources_line_offset:
  assumes "getSource sk overrides fsys (MainFile sk) = Inr mainSrc"
      and "\<forall>f \<in> set (OtherSketchFiles sk). \<exists>src. getSource sk overrides fsys f = Inr src"
  shows "(\<exists>mtext. sketchMergeSources sk overrides fsys =
                  Inr (if includesArduinoH mainSrc then 1 else 2, mtext)
               \<and> (\<not> includesArduinoH mainSrc \<longrightarrow>
                    prefix (''#include <Arduino.h>'' @ [CHR 0x0A] @ ''#line 1 '') mtext))
         \<and> (\<forall>others off mtext.
               sketchMergeSources (sk\<lparr>OtherSketchFiles := others\<rparr>) overrides fsys = Inr (off, mtext)
               \<longrightarrow> off = (if includesArduinoH mainSrc then 1 else 2))"
proof (intro conjI allI impI)
  from sketchMergeSources_total [OF assms] obtain off mtext
    where r: "sketchMergeSources sk overrides fsys = Inr (off, mtext)" by blast
  note res = sketchMergeSources_result [OF r assms(1)]
  have "\<not> includesArduinoH mainSrc \<longrightarrow>
          prefix (''#include <Arduino.h>'' @ [CHR 0x0A] @ ''#line 1 '') mtext"
  proof
    assume n: "\<not> includesArduinoH mainSrc"
    with res have "prefix ((''#include <Arduino.h>'' @ [CHR 0x0A] @ ''#line 1 '')
                     @ (QuoteString (MainFile sk) @ [CHR 0x0A] @ mainSrc @ [CHR 0x0A])) mtext"
      by simp
    then show "prefix (''#include <Arduino.h>'' @ [CHR 0x0A] @ ''#line 1 '') mtext"
      by (rule append_prefixD)
  qed
  with r res show "\<exists>mtext. sketchMergeSources sk overrides fsys =
                  Inr (if includesArduinoH mainSrc then 1 else 2, mtext)
               \<and> (\<not> includesArduinoH mainSrc \<longrightarrow>
                    prefix (''#include <Arduino.h>'' @ [CHR 0x0A] @ ''#line 1 '') mtext)"
    by blast
next
  fix others off mtext
  assume r: "sketchMergeSources (sk\<lparr>OtherSketchFiles := others\<rparr>) overrides fsys = Inr (off, mtext)"
  have "getSource (sk\<lparr>OtherSketchFiles := others\<rparr>) overrides fsys
          (MainFile (sk\<lparr>OtherSketchFiles := others\<rparr>)) = Inr mainSrc"
    using assms(1) by simp
  from sketchMergeSources_result [OF r this]
  show "off = (if includesArduinoH mainSrc then 1 else 2)" by blast
qed

lemmas build_ex_defs = exBuildSketch_def exBuildFS_def exIncludeOverride_def

text \<open>
  A sketch without the include (offset 2), the same sketch with an override of the main
  file that includes the header between double quotes after spaces (offset 1), and the
  first sketch without its other file (offset 2 again).
\<close>
theorem merge_sources_line_offset_witness:
  "(\<exists>mtext. sketchMergeSources exBuildSketch Map.empty exBuildFS = Inr (2, mtext)
            \<and> prefix (''#include <Arduino.h>'' @ [CHR 0x0A] @ ''#line 1 '') mtext)
   \<and> (\<exists>mtext. sketchMergeSources exBuildSketch exIncludeOverride exBuildFS = Inr (1, mtext))
   \<and> (\<exists>mtext. sketchMergeSources (exBuildSketch\<lparr>OtherSketchFiles := []\<rparr>) Map.empty exBuildFS
                 = Inr (2, mtext))"
proof -
  have m1: "getSource exBuildSketch Map.empty exBuildFS (MainFile exBuildSketch) = Inr ''void setup(){}''"
    by (simp add: getSource_def ReadFile_def build_ex_defs)
  have o1: "\<forall>f \<in> set (OtherSketchFiles exBuildSketch).
              \<exists>src. getSource exBuildSketch Map.empty exBuildFS f = Inr src"
    by (simp add: getSource_def ReadFile_def build_ex_defs)
  have n1: "\<not> includesArduinoH ''void setup(){}''"
    by (simp add: includesArduinoH_def matchHere_def isSpace_def)
  have m2: "getSource exBuildSketch exIncludeOverride exBuildFS (MainFile exBuildSketch)
              = Inr (''  #  include '' @ [CHR 0x22] @ ''Arduino.h'' @ [CHR 0x22])"
    by (simp add: getSource_def ReadFile_def build_ex_defs)
  have o2: "\<forall>f \<in> set (OtherSketchFiles exBuildSketch).
              \<exists>src. getSource exBuildSketch exIncludeOverride exBuildFS f = Inr src"
    by (simp add: getSource_def ReadFile_def build_ex_defs)
  have n2: "includesArduinoH (''  #  include '' @ [CHR 0x22] @ ''Arduino.h'' @ [CHR 0x22])"
    by (simp add: includesArduinoH_def matchHere_def isSpace_def)
  note w1 = merge_sources_line_offset [OF m1 o1]
  note w2 = merge_sources_line_offset [OF m2 o2]
  from w1 n1 have a: "\<exists>mtext. sketchMergeSources exBuildSketch Map.empty exBuildFS = Inr (2, mtext)
            \<and> prefix (''#include <Arduino.h>'' @ [CHR 0x0A] @ ''#line 1 '') mtext"
    by simp
  from w2 n2 have b: "\<exists>mtext. sketchMergeSources exBuildSketch exIncludeOverride exBuildFS = Inr (1, mtext)"
    by simp
  have "\<exists>off mtext. sketchMergeSources (exBuildSketch\<lparr>OtherSketchFiles := []\<rparr>) Map.empty exBuildFS
                 = Inr (off, mtext)"
    by (simp add: sketchMergeSources_def getSource_def ReadFile_def build_ex_defs Let_def n1)
  then obtain off mtext where
    r: "sketchMergeSources (exBuildSketch\<lparr>OtherSketchFiles := []\<rparr>) Map.empty exBuildFS
                 = Inr (off, mtext)" by blast
  from w1 have "sketchMergeSources (exBuildSketch\<lparr>OtherSketchFiles := []\<rparr>) Map.empty exBuildFS
                 = Inr (off, mtext) \<longrightarrow> off = (if includesArduinoH ''void setup(){}'' then 1 else 2)"
    by blast
  with r n1 have "off = 2" by simp
  with r have c: "\<exists>mtext. sketchMergeSources (exBuildSketch\<lparr>OtherSketchFiles := []\<rparr>) Map.empty exBuildFS
                 = Inr (2, mtext)" by blast
  from a b c show ?thesis by (intro conjI)
qed

lemma writeIfDifferent_result:
  assumes "\<not> writeFails fsys destPath" and "\<not> readFails fsys destPath"
      and "destPath \<notin> dirs fsys"
  shows "writeIfDifferent fsys source destPath =
           (None, if files fsys destPath = Some source then fsys
                  else fsys\<lparr>files := (files fsys)(destPath \<mapsto> source),
                            writeLog := writeLog fsys @ [(destPath, source)]\<rparr>)"
  using assms
  by (auto simp: writeIfDifferent_def NotExist_def Exist_def WriteFile_def ReadFile_def
           split: option.splits)

lemma copyAdditionalFile_result:
  assumes "relTo fsys (FullPath sk) file = Inr relpath"
      and "\<not> mkdirFails fsys (Parent (Join buildPath relpath))"
      and "files fsys (Parent (Join buildPath relpath)) = None"
      and "overrides relpath = Some s
           \<or> (overrides relpath = None \<and> \<not> readFails fsys file \<and> files fsys file = Some s)"
      and "\<not> writeFails fsys (Join buildPath relpath)"
      and "\<not> readFails fsys (Join buildPath relpath)"
      and "Join buildPath relpath \<notin> insert (Parent (Join buildPath relpath)) (dirs fsys)"
  shows "copyAdditionalFile sk buildPath overrides fsys file =
           (None,
            if files fsys (Join buildPath relpath) = Some (''#line 1 '' @ QuoteString file @ [CHR 0x0A] @ s)
            then fsys\<lparr>dirs := insert (Parent (Join buildPath relpath)) (dirs fsys)\<rparr>
            else fsys\<lparr>dirs := insert (Parent (Join buildPath relpath)) (dirs fsys),
                      files := (files fsys)(Join buildPath relpath \<mapsto>
                                  ''#line 1 '' @ QuoteString file @ [CHR 0x0A] @ s),
                      writeLog := writeLog fsys @
                        [(Join buildPath relpath, ''#line 1 '' @ QuoteString file @ [CHR 0x0A] @ s)]\<rparr>)"
proof -
  let ?T = "Join buildPath relpath"
  let ?P = "Parent (Join buildPath relpath)"
  let ?C = "''#line 1 '' @ QuoteString file @ [CHR 0x0A] @ s"
  define fsM where "fsM = fsys\<lparr>dirs := insert ?P (dirs fsys)\<rparr>"
  have mk: "MkdirAll fsys ?P = Inr fsM"
    using assms(2,3) by (simp add: MkdirAll_def fsM_def)
  have src: "(case overrides relpath of
                Some override \<Rightarrow> Inr override
              | None \<Rightarrow>
                  (case ReadFile fsM file of
                     Inl err \<Rightarrow> Inl (Wrap err ''unable to read contents of the source item'')
                   | Inr s \<Rightarrow> Inr s)) = Inr s"
    using assms(4) by (auto simp: ReadFile_def fsM_def)
  have w: "writeIfDifferent fsM ?C ?T =
             (None, if files fsM ?T = Some ?C then fsM
                    else fsM\<lparr>files := (files fsM)(?T \<mapsto> ?C),
                              writeLog := writeLog fsM @ [(?T, ?C)]\<rparr>)"
    using assms(5,6,7) by (intro writeIfDifferent_result) (auto simp: fsM_def)
  have "copyAdditionalFile sk buildPath overrides fsys file =
          (None, if files fsM ?T = Some ?C then fsM
                    else fsM\<lparr>files := (files fsM)(?T \<mapsto> ?C),
                              writeLog := writeLog fsM @ [(?T, ?C)]\<rparr>)"
    unfolding copyAdditionalFile_def
    by (simp add: assms(1) Let_def mk src w del: append.simps)
  then show ?thesis
    by (simp add: fsM_def)
qed

section \<open>Copying the additional files\<close>
text \<open>
  C5. One copy of an additional file whose source is the override for its relative path,
  or else the file read from the sketch, with no I/O failure and a destination that is
  not a directory. The destination ends with the marker line followed by the source
  bytes, and the write log grows by that single write exactly when the destination did
  not exist or held other content; otherwise the log is unchanged. When the copy has not
  changed its own source (an override, or a file other than the destination), a second
  copy writes nothing, so two copies onto a fresh destination make one write. After the
  source changed (the file rewritten, or another override given), the next copy writes
  the new content.
\<close>
theorem copy_writes_only_when_different:
  assumes "relTo fsys (FullPath sk) file = Inr relpath"
      and "\<not> mkdirFails fsys (Parent (Join buildPath relpath))"
      and "files fsys (Parent (Join buildPath relpath)) = None"
      and "overrides relpath = Some s
           \<or> (overrides relpath = None \<and> \<not> readFails fsys file \<and> files fsys file = Some s)"
      and "\<not> writeFails fsys (Join buildPath relpath)"
      and "\<not> readFails fsys (Join buildPath relpath)"
      and "Join buildPath relpath \<notin> insert (Parent (Join buildPath relpath)) (dirs fsys)"
  shows "\<exists>fs1. copyAdditionalFile sk buildPath overrides fsys file = (None, fs1)
           \<and> files fs1 (Join buildPath relpath) = Some (''#line 1 '' @ QuoteString file @ [CHR 0x0A] @ s)
           \<and> (writeLog fs1 =
                (if NotExist fsys (Join buildPath relpath)
                    \<or> files fsys (Join buildPath relpath)
                         \<noteq> Some (''#line 1 '' @ QuoteString file @ [CHR 0x0A] @ s)
                 then writeLog fsys @ [(Join buildPath relpath,
                                        ''#line 1 '' @ QuoteString file @ [CHR 0x0A] @ s)]
                 else writeLog fsys))
           \<and> ((overrides relpath = None \<longrightarrow> file \<noteq> Join buildPath relpath) \<longrightarrow>
                (\<exists>fs2. copyAdditionalFile sk buildPath overrides fs1 file = (None, fs2)
                       \<and> writeLog fs2 = writeLog fs1))
           \<and> (\<forall>s'. s' \<noteq> s \<and> overrides relpath = None \<and> file \<noteq> Join buildPath relpath \<longrightarrow>
                 (\<exists>fs3. copyAdditionalFile sk buildPath overrides
                          (fs1\<lparr>files := (files fs1)(file \<mapsto> s')\<rparr>) file = (None, fs3)
                        \<and> writeLog fs3 = writeLog fs1 @ [(Join buildPath relpath,
                                        ''#line 1 '' @ QuoteString file @ [CHR 0x0A] @ s')]
                        \<and> files fs3 (Join buildPath relpath)
                            = Some (''#line 1 '' @ QuoteString file @ [CHR 0x0A] @ s')))
           \<and> (\<forall>s' overrides'. s' \<noteq> s \<and> overrides' relpath = Some s' \<longrightarrow>
                 (\<exists>fs3. copyAdditionalFile sk buildPath overrides' fs1 file = (None, fs3)
                        \<and> writeLog fs3 = writeLog fs1 @ [(Join buildPath relpath,
                                        ''#line 1 '' @ QuoteString file @ [CHR 0x0A] @ s')]
                        \<and> files fs3 (Join buildPath relpath)
                            = Some (''#line 1 '' @ QuoteString file @ [CHR 0x0A] @ s')))"
proof -
  let ?T = "Join buildPath relpath"
  let ?P = "Parent (Join buildPath relpath)"
  let ?C = "''#line 1 '' @ QuoteString file @ [CHR 0x0A] @ s"
  define fs1 where "fs1 = (if files fsys ?T = Some ?C
            then fsys\<lparr>dirs := insert ?P (dirs fsys)\<rparr>
            else fsys\<lparr>dirs := insert ?P (dirs fsys),
                      files := (files fsys)(?T \<mapsto> ?C),
                      writeLog := writeLog fsys @ [(?T, ?C)]\<rparr>)"
  have PT: "?P \<noteq> ?T" and Td: "?T \<notin> dirs fsys" using assms(7) by auto
  have r1: "copyAdditionalFile sk buildPath overrides fsys file = (None, fs1)"
    unfolding fs1_def
    by (rule copyAdditionalFile_result [where overrides = overrides, OF assms])
  have f1: "files fs1 ?T = Some ?C" by (simp add: fs1_def)
  have nx: "NotExist fsys ?T \<longrightarrow> files fsys ?T \<noteq> Some ?C"
    by (simp add: NotExist_def Exist_def)
  have l1: "writeLog fs1 =
              (if NotExist fsys ?T \<or> files fsys ?T \<noteq> Some ?C
               then writeLog fsys @ [(?T, ?C)] else writeLog fsys)"
    using nx by (auto simp: fs1_def)
  have h1: "relTo fs1 (FullPath sk) file = Inr relpath" using assms(1) by (simp add: fs1_def)
  have h2: "\<not> mkdirFails fs1 ?P" using assms(2) by (simp add: fs1_def)
  have h3: "files fs1 ?P = None" using assms(3) PT by (simp add: fs1_def)
  have h5: "\<not> writeFails fs1 ?T" using assms(5) by (simp add: fs1_def)
  have h6: "\<not> readFails fs1 ?T" using assms(6) by (simp add: fs1_def)
  have h7: "?T \<notin> insert ?P (dirs fs1)" using Td PT by (auto simp: fs1_def)
  have rf: "readFails fs1 file = readFails fsys file" by (simp add: fs1_def)
  have second: "(overrides relpath = None \<longrightarrow> file \<noteq> ?T) \<longrightarrow>
                (\<exists>fs2. copyAdditionalFile sk buildPath overrides fs1 file = (None, fs2)
                       \<and> writeLog fs2 = writeLog fs1)"
  proof
    assume ne: "overrides relpath = None \<longrightarrow> file \<noteq> ?T"
    have h4: "overrides relpath = Some s
           \<or> (overrides relpath = None \<and> \<not> readFails fs1 file \<and> files fs1 file = Some s)"
      using assms(4) ne by (auto simp: fs1_def)
    have r2: "copyAdditionalFile sk buildPath overrides fs1 file =
              (None, fs1\<lparr>dirs := insert ?P (dirs fs1)\<rparr>)"
      using copyAdditionalFile_result [where overrides = overrides, OF h1 h2 h3 h4 h5 h6 h7]
      by (simp only: f1 simp_thms if_True)
    show "\<exists>fs2. copyAdditionalFile sk buildPath overrides fs1 file = (None, fs2)
                       \<and> writeLog fs2 = writeLog fs1"
      unfolding r2 by simp
  qed
  have third: "\<forall>s'. s' \<noteq> s \<and> overrides relpath = None \<and> file \<noteq> ?T \<longrightarrow>
                 (\<exists>fs3. copyAdditionalFile sk buildPath overrides
                          (fs1\<lparr>files := (files fs1)(file \<mapsto> s')\<rparr>) file = (None, fs3)
                        \<and> writeLog fs3 = writeLog fs1 @ [(?T, ''#line 1 '' @ QuoteString file @ [CHR 0x0A] @ s')]
                        \<and> files fs3 ?T = Some (''#line 1 '' @ QuoteString file @ [CHR 0x0A] @ s'))"
  proof (intro allI impI)
    fix s' assume a: "s' \<noteq> s \<and> overrides relpath = None \<and> file \<noteq> ?T"
    then have ne: "s' \<noteq> s" and ov: "overrides relpath = None" and fT: "file \<noteq> ?T" by auto
    from assms(4) ov have rd: "\<not> readFails fsys file" and fl: "files fsys file = Some s" by auto
    define g where "g = fs1\<lparr>files := (files fs1)(file \<mapsto> s')\<rparr>"
    let ?C' = "''#line 1 '' @ QuoteString file @ [CHR 0x0A] @ s'"
    have g1: "relTo g (FullPath sk) file = Inr relpath" using h1 by (simp add: g_def)
    have g2: "\<not> mkdirFails g ?P" using h2 by (simp add: g_def)
    have fP: "file \<noteq> ?P" using assms(3) fl by auto
    have g3: "files g ?P = None" using h3 fP by (simp add: g_def)
    have g4: "overrides relpath = Some s'
           \<or> (overrides relpath = None \<and> \<not> readFails g file \<and> files g file = Some s')"
      using ov rd rf by (simp add: g_def)
    have g5: "\<not> writeFails g ?T" using h5 by (simp add: g_def)
    have g6: "\<not> readFails g ?T" using h6 by (simp add: g_def)
    have g7: "?T \<notin> insert ?P (dirs g)" using h7 by (simp add: g_def)
    have old: "files g ?T = Some ?C" using f1 fT by (simp add: g_def)
    have diff: "(files g ?T = Some ?C') = False" using old ne by simp
    have r3: "copyAdditionalFile sk buildPath overrides g file =
            (None, g\<lparr>dirs := insert ?P (dirs g),
                      files := (files g)(?T \<mapsto> ?C'),
                      writeLog := writeLog g @ [(?T, ?C')]\<rparr>)"
      using copyAdditionalFile_result [where overrides = overrides, OF g1 g2 g3 g4 g5 g6 g7]
      by (simp only: diff if_False)
    have lg: "writeLog g = writeLog fs1" by (simp add: g_def)
    show "\<exists>fs3. copyAdditionalFile sk buildPath overrides
                          (fs1\<lparr>files := (files fs1)(file \<mapsto> s')\<rparr>) file = (None, fs3)
                        \<and> writeLog fs3 = writeLog fs1 @ [(?T, ?C')]
                        \<and> files fs3 ?T = Some ?C'"
      using r3 lg unfolding g_def [symmetric] by simp
  qed
  have fourth: "\<forall>s' overrides'. s' \<noteq> s \<and> overrides' relpath = Some s' \<longrightarrow>
                 (\<exists>fs3. copyAdditionalFile sk buildPath overrides' fs1 file = (None, fs3)
                        \<and> writeLog fs3 = writeLog fs1 @ [(?T, ''#line 1 '' @ QuoteString file @ [CHR 0x0A] @ s')]
                        \<and> files fs3 ?T = Some (''#line 1 '' @ QuoteString file @ [CHR 0x0A] @ s'))"
  proof (intro allI impI)
    fix s' :: string and overrides' :: "string \<rightharpoonup> string"
    assume a: "s' \<noteq> s \<and> overrides' relpath = Some s'"
    then have ne: "s' \<noteq> s" and ov: "overrides' relpath = Some s'" by auto
    let ?C' = "''#line 1 '' @ QuoteString file @ [CHR 0x0A] @ s'"
    have k4: "overrides' relpath = Some s'
           \<or> (overrides' relpath = None \<and> \<not> readFails fs1 file \<and> files fs1 file = Some s')"
      using ov by simp
    have diff: "(files fs1 ?T = Some ?C') = False" using f1 ne by simp
    have r4: "copyAdditionalFile sk buildPath overrides' fs1 file =
            (None, fs1\<lparr>dirs := insert ?P (dirs fs1),
                      files := (files fs1)(?T \<mapsto> ?C'),
                      writeLog := writeLog fs1 @ [(?T, ?C')]\<rparr>)"
      using copyAdditionalFile_result [where overrides = overrides', OF h1 h2 h3 k4 h5 h6 h7]
      by (simp only: diff if_False)
    show "\<exists>fs3. copyAdditionalFile sk buildPath overrides' fs1 file = (None, fs3)
                        \<and> writeLog fs3 = writeLog fs1 @ [(?T, ?C')]
                        \<and> files fs3 ?T = Some ?C'"
      unfolding r4 by simp
  qed
  show ?thesis
  proof (rule exI, intro conjI)
    show "copyAdditionalFile sk buildPath overrides fsys file = (None, fs1)" by (rule r1)
    show "files fs1 ?T = Some ?C" by (rule f1)
    show "writeLog fs1 =
              (if NotExist fsys ?T \<or> files fsys ?T \<noteq> Some ?C
               then writeLog fsys @ [(?T, ?C)] else writeLog fsys)" by (rule l1)
    show "(overrides relpath = None \<longrightarrow> file \<noteq> ?T) \<longrightarrow>
                (\<exists>fs2. copyAdditionalFile sk buildPath overrides fs1 file = (None, fs2)
                       \<and> writeLog fs2 = writeLog fs1)" by (rule second)
    show "\<forall>s'. s' \<noteq> s \<and> overrides relpath = None \<and> file \<noteq> ?T \<longrightarrow>
                 (\<exists>fs3. copyAdditionalFile sk buildPath overrides
                          (fs1\<lparr>files := (files fs1)(file \<mapsto> s')\<rparr>) file = (None, fs3)
                        \<and> writeLog fs3 = writeLog fs1 @ [(?T, ''#line 1 '' @ QuoteString file @ [CHR 0x0A] @ s')]
                        \<and> files fs3 ?T = Some (''#line 1 '' @ QuoteString file @ [CHR 0x0A] @ s'))"
      by (rule third)
    show "\<forall>s' overrides'. s' \<noteq> s \<and> overrides' relpath = Some s' \<longrightarrow>
                 (\<exists>fs3. copyAdditionalFile sk buildPath overrides' fs1 file = (None, fs3)
                        \<and> writeLog fs3 = writeLog fs1 @ [(?T, ''#line 1 '' @ QuoteString file @ [CHR 0x0A] @ s')]
                        \<and> files fs3 ?T = Some (''#line 1 '' @ QuoteString file @ [CHR 0x0A] @ s'))"
      by (rule fourth)
  qed
qed

lemmas path_defs = Join_def filepath_Join_def Clean_def cleanElement_def Parent_def Base_def

text \<open>
  The file \<^verbatim>\<open>data.txt\<close> of a sketch in \<^verbatim>\<open>/s/Sketch\<close> copied into a fresh
  build directory: one write, none on the second copy, a second write once the file holds
  other content or an override is given.
\<close>
theorem copy_writes_only_when_different_witness:
  "\<exists>fs1. copyAdditionalFile exDirSketch ''/tmp/build'' Map.empty exDirFS ''/s/Sketch/data.txt'' = (None, fs1)
         \<and> files fs1 ''/tmp/build/data.txt'' =
              Some (''#line 1 '' @ [CHR 0x22] @ ''/s/Sketch/data.txt'' @ [CHR 0x22, CHR 0x0A] @ ''hello'')
         \<and> writeLog fs1 =
              [(''/tmp/build/data.txt'',
                ''#line 1 '' @ [CHR 0x22] @ ''/s/Sketch/data.txt'' @ [CHR 0x22, CHR 0x0A] @ ''hello'')]
         \<and> (\<exists>fs2. copyAdditionalFile exDirSketch ''/tmp/build'' Map.empty fs1 ''/s/Sketch/data.txt'' = (None, fs2)
                   \<and> writeLog fs2 = writeLog fs1)
         \<and> (\<exists>fs3. copyAdditionalFile exDirSketch ''/tmp/build'' Map.empty
                      (fs1\<lparr>files := (files fs1)(''/s/Sketch/data.txt'' \<mapsto> ''bye'')\<rparr>)
                      ''/s/Sketch/data.txt'' = (None, fs3)
                   \<and> writeLog fs3 = writeLog fs1 @
                        [(''/tmp/build/data.txt'',
                          ''#line 1 '' @ [CHR 0x22] @ ''/s/Sketch/data.txt'' @ [CHR 0x22, CHR 0x0A] @ ''bye'')])
         \<and> (\<exists>fs3. copyAdditionalFile exDirSketch ''/tmp/build'' [''data.txt'' \<mapsto> ''override'']
                      fs1 ''/s/Sketch/data.txt'' = (None, fs3)
                   \<and> writeLog fs3 = writeLog fs1 @
                        [(''/tmp/build/data.txt'',
                          ''#line 1 '' @ [CHR 0x22] @ ''/s/Sketch/data.txt'' @ [CHR 0x22, CHR 0x0A] @ ''override'')])"
proof -
  have J: "Join ''/tmp/build'' ''data.txt'' = ''/tmp/build/data.txt''" by (simp add: path_defs)
  have P: "Parent ''/tmp/build/data.txt'' = ''/tmp/build''" by (simp add: path_defs)
  have a1: "relTo exDirFS (FullPath exDirSketch) ''/s/Sketch/data.txt'' = Inr ''data.txt''"
    by (simp add: exDirSketch_def exDirFS_def)
  have a2: "\<not> mkdirFails exDirFS (Parent (Join ''/tmp/build'' ''data.txt''))"
    by (simp add: exDirFS_def)
  have a3: "files exDirFS (Parent (Join ''/tmp/build'' ''data.txt'')) = None"
    by (simp add: J P) (simp add: exDirFS_def)
  have a4: "Map.empty ''data.txt'' = Some ''hello''
           \<or> ((Map.empty :: string \<rightharpoonup> string) ''data.txt'' = None
               \<and> \<not> readFails exDirFS ''/s/Sketch/data.txt''
               \<and> files exDirFS ''/s/Sketch/data.txt'' = Some ''hello'')"
    by (simp add: exDirFS_def)
  have a5: "\<not> writeFails exDirFS (Join ''/tmp/build'' ''data.txt'')" by (simp add: exDirFS_def)
  have a6: "\<not> readFails exDirFS (Join ''/tmp/build'' ''data.txt'')" by (simp add: exDirFS_def)
  have a7: "Join ''/tmp/build'' ''data.txt''
              \<notin> insert (Parent (Join ''/tmp/build'' ''data.txt'')) (dirs exDirFS)"
    by (simp add: J P) (simp add: exDirFS_def)
  have nex: "NotExist exDirFS (Join ''/tmp/build'' ''data.txt'')"
    by (simp add: J NotExist_def Exist_def) (simp add: exDirFS_def)
  have lg: "writeLog exDirFS = []" by (simp add: exDirFS_def)
  have ne: "(Map.empty :: string \<rightharpoonup> string) ''data.txt'' = None
              \<longrightarrow> ''/s/Sketch/data.txt'' \<noteq> Join ''/tmp/build'' ''data.txt''"
    by (simp add: J)
  note w = copy_writes_only_when_different
    [where overrides = Map.empty and s = "''hello''", OF a1 a2 a3 a4 a5 a6 a7]
  from w obtain fs1 where c:
    "copyAdditionalFile exDirSketch ''/tmp/build'' Map.empty exDirFS ''/s/Sketch/data.txt'' = (None, fs1)
           \<and> files fs1 (Join ''/tmp/build'' ''data.txt'') = Some (''#line 1 '' @ QuoteString ''/s/Sketch/data.txt'' @ [CHR 0x0A] @ ''hello'')
           \<and> (writeLog fs1 =
                (if NotExist exDirFS (Join ''/tmp/build'' ''data.txt'')
                    \<or> files exDirFS (Join ''/tmp/build'' ''data.txt'')
                         \<noteq> Some (''#line 1 '' @ QuoteString ''/s/Sketch/data.txt'' @ [CHR 0x0A] @ ''hello'')
                 then writeLog exDirFS @ [(Join ''/tmp/build'' ''data.txt'',
                                        ''#line 1 '' @ QuoteString ''/s/Sketch/data.txt'' @ [CHR 0x0A] @ ''hello'')]
                 else writeLog exDirFS))
           \<and> ((Map.empty ''data.txt'' = (None :: string option) \<longrightarrow> ''/s/Sketch/data.txt'' \<noteq> Join ''/tmp/build'' ''data.txt'') \<longrightarrow>
                (\<exists>fs2. copyAdditionalFile exDirSketch ''/tmp/build'' Map.empty fs1 ''/s/Sketch/data.txt'' = (None, fs2)
                       \<and> writeLog fs2 = writeLog fs1))
           \<and> (\<forall>s'. s' \<noteq> ''hello'' \<and> Map.empty ''data.txt'' = (None :: string option)
                      \<and> ''/s/Sketch/data.txt'' \<noteq> Join ''/tmp/build'' ''data.txt'' \<longrightarrow>
                 (\<exists>fs3. copyAdditionalFile exDirSketch ''/tmp/build'' Map.empty
                          (fs1\<lparr>files := (files fs1)(''/s/Sketch/data.txt'' \<mapsto> s')\<rparr>) ''/s/Sketch/data.txt'' = (None, fs3)
                        \<and> writeLog fs3 = writeLog fs1 @ [(Join ''/tmp/build'' ''data.txt'',
                                        ''#line 1 '' @ QuoteString ''/s/Sketch/data.txt'' @ [CHR 0x0A] @ s')]
                        \<and> files fs3 (Join ''/tmp/build'' ''data.txt'')
                            = Some (''#line 1 '' @ QuoteString ''/s/Sketch/data.txt'' @ [CHR 0x0A] @ s')))
           \<and> (\<forall>s' overrides'. s' \<noteq> ''hello'' \<and> overrides' ''data.txt'' = Some s' \<longrightarrow>
                 (\<exists>fs3. copyAdditionalFile exDirSketch ''/tmp/build'' overrides' fs1 ''/s/Sketch/data.txt'' = (None, fs3)
                        \<and> writeLog fs3 = writeLog fs1 @ [(Join ''/tmp/build'' ''data.txt'',
                                        ''#line 1 '' @ QuoteString ''/s/Sketch/data.txt'' @ [CHR 0x0A] @ s')]
                        \<and> files fs3 (Join ''/tmp/build'' ''data.txt'')
                            = Some (''#line 1 '' @ QuoteString ''/s/Sketch/data.txt'' @ [CHR 0x0A] @ s')))" ..
  note c1 = c [THEN conjunct1]
  note c2 = c [THEN conjunct2, THEN conjunct1]
  note c3 = c [THEN conjunct2, THEN conjunct2, THEN conjunct1]
  note c4 = c [THEN conjunct2, THEN conjunct2, THEN conjunct2, THEN conjunct1]
  note c5 = c [THEN conjunct2, THEN conjunct2, THEN conjunct2, THEN conjunct2, THEN conjunct1]
  note c6 = c [THEN conjunct2, THEN conjunct2, THEN conjunct2, THEN conjunct2, THEN conjunct2]
  from c2 have d2: "files fs1 ''/tmp/build/data.txt'' =
              Some (''#line 1 '' @ [CHR 0x22] @ ''/s/Sketch/data.txt'' @ [CHR 0x22, CHR 0x0A] @ ''hello'')"
    by (simp add: J QuoteString_def)
  from c3 nex lg have d3: "writeLog fs1 =
              [(''/tmp/build/data.txt'',
                ''#line 1 '' @ [CHR 0x22] @ ''/s/Sketch/data.txt'' @ [CHR 0x22, CHR 0x0A] @ ''hello'')]"
    by (simp add: J QuoteString_def)
  from c4 [THEN mp, OF ne]
  have d4: "\<exists>fs2. copyAdditionalFile exDirSketch ''/tmp/build'' Map.empty fs1 ''/s/Sketch/data.txt'' = (None, fs2)
                   \<and> writeLog fs2 = writeLog fs1" .
  have bye: "''bye'' \<noteq> ''hello'' \<and> Map.empty ''data.txt'' = (None :: string option)
                      \<and> ''/s/Sketch/data.txt'' \<noteq> Join ''/tmp/build'' ''data.txt''"
    by (simp add: J)
  from c5 [THEN spec, of "''bye''", THEN mp, OF bye] obtain fs3 where e:
    "copyAdditionalFile exDirSketch ''/tmp/build'' Map.empty
                          (fs1\<lparr>files := (files fs1)(''/s/Sketch/data.txt'' \<mapsto> ''bye'')\<rparr>) ''/s/Sketch/data.txt'' = (None, fs3)
                        \<and> writeLog fs3 = writeLog fs1 @ [(Join ''/tmp/build'' ''data.txt'',
                                        ''#line 1 '' @ QuoteString ''/s/Sketch/data.txt'' @ [CHR 0x0A] @ ''bye'')]
                        \<and> files fs3 (Join ''/tmp/build'' ''data.txt'')
                            = Some (''#line 1 '' @ QuoteString ''/s/Sketch/data.txt'' @ [CHR 0x0A] @ ''bye'')" ..
  have e3: "copyAdditionalFile exDirSketch ''/tmp/build'' Map.empty
                      (fs1\<lparr>files := (files fs1)(''/s/Sketch/data.txt'' \<mapsto> ''bye'')\<rparr>)
                      ''/s/Sketch/data.txt'' = (None, fs3)
                   \<and> writeLog fs3 = writeLog fs1 @
                        [(''/tmp/build/data.txt'',
                          ''#line 1 '' @ [CHR 0x22] @ ''/s/Sketch/data.txt'' @ [CHR 0x22, CHR 0x0A] @ ''bye'')]"
    using e [THEN conjunct1] e [THEN conjunct2, THEN conjunct1]
    by (simp add: J QuoteString_def)
  have d5: "\<exists>fs3. copyAdditionalFile exDirSketch ''/tmp/build'' Map.empty
                      (fs1\<lparr>files := (files fs1)(''/s/Sketch/data.txt'' \<mapsto> ''bye'')\<rparr>)
                      ''/s/Sketch/data.txt'' = (None, fs3)
                   \<and> writeLog fs3 = writeLog fs1 @
                        [(''/tmp/build/data.txt'',
                          ''#line 1 '' @ [CHR 0x22] @ ''/s/Sketch/data.txt'' @ [CHR 0x22, CHR 0x0A] @ ''bye'')]"
  proof (rule exI)
    show "copyAdditionalFile exDirSketch ''/tmp/build'' Map.empty
                      (fs1\<lparr>files := (files fs1)(''/s/Sketch/data.txt'' \<mapsto> ''bye'')\<rparr>)
                      ''/s/Sketch/data.txt'' = (None, fs3)
                   \<and> writeLog fs3 = writeLog fs1 @
                        [(''/tmp/build/data.txt'',
                          ''#line 1 '' @ [CHR 0x22] @ ''/s/Sketch/data.txt'' @ [CHR 0x22, CHR 0x0A] @ ''bye'')]"
      by (rule e3)
  qed
  have ovr: "''override'' \<noteq> ''hello'' \<and> [''data.txt'' \<mapsto> ''override''] ''data.txt'' = Some ''override''"
    by simp
  from c6 [THEN spec, of "''override''", THEN spec, of "[''data.txt'' \<mapsto> ''override'']", THEN mp, OF ovr]
  obtain fs4 where k:
    "copyAdditionalFile exDirSketch ''/tmp/build'' [''data.txt'' \<mapsto> ''override''] fs1 ''/s/Sketch/data.txt'' = (None, fs4)
                        \<and> writeLog fs4 = writeLog fs1 @ [(Join ''/tmp/build'' ''data.txt'',
                                        ''#line 1 '' @ QuoteString ''/s/Sketch/data.txt'' @ [CHR 0x0A] @ ''override'')]
                        \<and> files fs4 (Join ''/tmp/build'' ''data.txt'')
                            = Some (''#line 1 '' @ QuoteString ''/s/Sketch/data.txt'' @ [CHR 0x0A] @ ''override'')" ..
  have k3: "copyAdditionalFile exDirSketch ''/tmp/build'' [''data.txt'' \<mapsto> ''override'']
                      fs1 ''/s/Sketch/data.txt'' = (None, fs4)
                   \<and> writeLog fs4 = writeLog fs1 @
                        [(''/tmp/build/data.txt'',
                          ''#line 1 '' @ [CHR 0x22] @ ''/s/Sketch/data.txt'' @ [CHR 0x22, CHR 0x0A] @ ''override'')]"
    using k [THEN conjunct1] k [THEN conjunct2, THEN conjunct1]
    by (simp add: J QuoteString_def)
  have d6: "\<exists>fs3. copyAdditionalFile exDirSketch ''/tmp/build'' [''data.txt'' \<mapsto> ''override'']
                      fs1 ''/s/Sketch/data.txt'' = (None, fs3)
                   \<and> writeLog fs3 = writeLog fs1 @
                        [(''/tmp/build/data.txt'',
                          ''#line 1 '' @ [CHR 0x22] @ ''/s/Sketch/data.txt'' @ [CHR 0x22, CHR 0x0A] @ ''override'')]"
  proof (rule exI)
    show "copyAdditionalFile exDirSketch ''/tmp/build'' [''data.txt'' \<mapsto> ''override'']
                      fs1 ''/s/Sketch/data.txt'' = (None, fs4)
                   \<and> writeLog fs4 = writeLog fs1 @
                        [(''/tmp/build/data.txt'',
                          ''#line 1 '' @ [CHR 0x22] @ ''/s/Sketch/data.txt'' @ [CHR 0x22, CHR 0x0A] @ ''override'')]"
      by (rule k3)
  qed
  show ?thesis
  proof (rule exI, intro conjI)
    show "copyAdditionalFile exDirSketch ''/tmp/build'' Map.empty exDirFS ''/s/Sketch/data.txt'' = (None, fs1)"
      by (rule c1)
    show "files fs1 ''/tmp/build/data.txt'' =
              Some (''#line 1 '' @ [CHR 0x22] @ ''/s/Sketch/data.txt'' @ [CHR 0x22, CHR 0x0A] @ ''hello'')"
      by (rule d2)
    show "writeLog fs1 =
              [(''/tmp/build/data.txt'',
                ''#line 1 '' @ [CHR 0x22] @ ''/s/Sketch/data.txt'' @ [CHR 0x22, CHR 0x0A] @ ''hello'')]"
      by (rule d3)
    show "\<exists>fs2. copyAdditionalFile exDirSketch ''/tmp/build'' Map.empty fs1 ''/s/Sketch/data.txt'' = (None, fs2)
                   \<and> writeLog fs2 = writeLog fs1"
      by (rule d4)
    show "\<exists>fs3. copyAdditionalFile exDirSketch ''/tmp/build'' Map.empty
                      (fs1\<lparr>files := (files fs1)(''/s/Sketch/data.txt'' \<mapsto> ''bye'')\<rparr>)
                      ''/s/Sketch/data.txt'' = (None, fs3)
                   \<and> writeLog fs3 = writeLog fs1 @
                        [(''/tmp/build/data.txt'',
                          ''#line 1 '' @ [CHR 0x22] @ ''/s/Sketch/data.txt'' @ [CHR 0x22, CHR 0x0A] @ ''bye'')]"
      by (rule d5)
    show "\<exists>fs3. copyAdditionalFile exDirSketch ''/tmp/build'' [''data.txt'' \<mapsto> ''override'']
                      fs1 ''/s/Sketch/data.txt'' = (None, fs3)
                   \<and> writeLog fs3 = writeLog fs1 @
                        [(''/tmp/build/data.txt'',
                          ''#line 1 '' @ [CHR 0x22] @ ''/s/Sketch/data.txt'' @ [CHR 0x22, CHR 0x0A] @ ''override'')]"
      by (rule d6)
  qed
qed

lemma ReadFile_dirs: "ReadFile (fsys\<lparr>dirs := d\<rparr>) f = ReadFile fsys f"
  by (simp add: ReadFile_def)

lemma getSource_dirs:
  "getSource sk overrides (fsys\<lparr>dirs := d\<rparr>) f = getSource sk overrides fsys f"
  by (simp add: getSource_def ReadFile_dirs split: sum.splits option.splits)

lemma PrepareSketchBuildPath_result:
  assumes cn: "Base (MainFile sk) @ ''.cpp'' = cppName"
      and s2: "OtherSketchFiles sk = []"
      and s3: "AdditionalFiles sk = [dataFile]"
      and gm: "getSource sk overrides fsys (MainFile sk) = Inr mainSrc"
      and n: "\<not> includesArduinoH mainSrc"
      and r2: "relTo fsys (FullPath sk) dataFile = Inr relpath"
      and src: "overrides relpath = Some c
                \<or> (overrides relpath = None \<and> files fsys dataFile = Some c
                    \<and> dataFile \<noteq> Join buildPath cppName)"
      and io: "\<forall>p. \<not> readFails fsys p \<and> \<not> writeFails fsys p \<and> \<not> mkdirFails fsys p"
      and b1: "files fsys buildPath = None"
      and b2: "files fsys (Parent (Join buildPath relpath)) = None"
      and b3: "Join buildPath cppName
                 \<notin> insert buildPath (insert (Parent (Join buildPath relpath)) (dirs fsys))"
      and b4: "Join buildPath relpath
                 \<notin> insert buildPath (insert (Parent (Join buildPath relpath))
                      (insert (Join buildPath cppName) (dirs fsys)))"
  shows "PrepareSketchBuildPath sk overrides buildPath fsys =
           (Inr 2,
            fsys\<lparr>dirs := insert (Parent (Join buildPath relpath)) (insert buildPath (dirs fsys)),
                 files :=
                   (files fsys)
                     (Join buildPath cppName \<mapsto>
                        ''#include <Arduino.h>'' @ [CHR 0x0A] @ ''#line 1 ''
                          @ QuoteString (MainFile sk) @ [CHR 0x0A] @ mainSrc @ [CHR 0x0A],
                      Join buildPath relpath \<mapsto>
                        ''#line 1 '' @ QuoteString dataFile @ [CHR 0x0A] @ c),
                 writeLog :=
                   writeLog fsys
                   @ [(Join buildPath cppName,
                       ''#include <Arduino.h>'' @ [CHR 0x0A] @ ''#line 1 ''
                          @ QuoteString (MainFile sk) @ [CHR 0x0A] @ mainSrc @ [CHR 0x0A])]
                   @ (if files fsys (Join buildPath relpath)
                           = Some (''#line 1 '' @ QuoteString dataFile @ [CHR 0x0A] @ c)
                      then []
                      else [(Join buildPath relpath,
                             ''#line 1 '' @ QuoteString dataFile @ [CHR 0x0A] @ c)])\<rparr>)"
proof -
  define cpp where "cpp = Join buildPath cppName"
  define T where "T = Join buildPath relpath"
  define P where "P = Parent (Join buildPath relpath)"
  define msrc where "msrc = ''#include <Arduino.h>'' @ [CHR 0x0A] @ ''#line 1 ''
                          @ QuoteString (MainFile sk) @ [CHR 0x0A] @ mainSrc @ [CHR 0x0A]"
  define dsrc where "dsrc = ''#line 1 '' @ QuoteString dataFile @ [CHR 0x0A] @ c"
  define fsA where "fsA = fsys\<lparr>dirs := insert buildPath (dirs fsys)\<rparr>"
  define fsB where "fsB = fsA\<lparr>files := (files fsA)(cpp \<mapsto> msrc),
                               writeLog := writeLog fsA @ [(cpp, msrc)]\<rparr>"
  define fsC where "fsC = (if files fsB T = Some dsrc
            then fsB\<lparr>dirs := insert P (dirs fsB)\<rparr>
            else fsB\<lparr>dirs := insert P (dirs fsB),
                      files := (files fsB)(T \<mapsto> dsrc),
                      writeLog := writeLog fsB @ [(T, dsrc)]\<rparr>)"
  have cpp_bp: "cpp \<noteq> buildPath" and cpp_P: "cpp \<noteq> P" and cpp_d: "cpp \<notin> dirs fsys"
    using b3 by (auto simp: cpp_def P_def)
  have T_bp: "T \<noteq> buildPath" and T_P: "T \<noteq> P" and T_cpp: "T \<noteq> cpp" and T_d: "T \<notin> dirs fsys"
    using b4 by (auto simp: cpp_def P_def T_def)
  have mk: "MkdirAll fsys buildPath = Inr fsA"
    using io b1 by (simp add: MkdirAll_def fsA_def)
  have gs: "getSource sk overrides fsA (MainFile sk) = Inr mainSrc"
    using gm by (simp add: fsA_def getSource_dirs)
  have ms: "sketchMergeSources sk overrides fsA = Inr (2, msrc)"
    using n by (simp add: sketchMergeSources_def s2 gs Let_def msrc_def)
  have wr: "WriteFile fsA cpp msrc = Inr fsB"
    using io cpp_d cpp_bp by (simp add: WriteFile_def fsA_def fsB_def)
  have c1: "relTo fsB (FullPath sk) dataFile = Inr relpath"
    using r2 by (simp add: fsA_def fsB_def)
  have c2: "\<not> mkdirFails fsB (Parent (Join buildPath relpath))"
    using io by (simp add: fsA_def fsB_def)
  have c3: "files fsB (Parent (Join buildPath relpath)) = None"
    using b2 cpp_P by (simp add: fsA_def fsB_def P_def)
  have c4: "overrides relpath = Some c
           \<or> (overrides relpath = None \<and> \<not> readFails fsB dataFile \<and> files fsB dataFile = Some c)"
    using src io by (auto simp: fsA_def fsB_def cpp_def)
  have c5: "\<not> writeFails fsB (Join buildPath relpath)" using io by (simp add: fsA_def fsB_def)
  have c6: "\<not> readFails fsB (Join buildPath relpath)" using io by (simp add: fsA_def fsB_def)
  have c7: "Join buildPath relpath \<notin> insert (Parent (Join buildPath relpath)) (dirs fsB)"
    using T_bp T_P T_d by (simp add: fsA_def fsB_def T_def P_def)
  have cp: "copyAdditionalFile sk buildPath overrides fsB dataFile = (None, fsC)"
    using copyAdditionalFile_result [where overrides = overrides, OF c1 c2 c3 c4 c5 c6 c7]
    by (simp only: fsC_def T_def P_def dsrc_def)
  have prep: "PrepareSketchBuildPath sk overrides buildPath fsys = (Inr 2, fsC)"
    by (simp add: PrepareSketchBuildPath_def mk ms Let_def cn
          wr [unfolded cpp_def] sketchCopyAdditionalFiles_def s3 cp)
  have old: "files fsB T = files fsys T"
    using T_cpp by (simp add: fsA_def fsB_def)
  have "fsC = fsys\<lparr>dirs := insert P (insert buildPath (dirs fsys)),
                 files := (files fsys)(cpp \<mapsto> msrc, T \<mapsto> dsrc),
                 writeLog := writeLog fsys @ [(cpp, msrc)]
                   @ (if files fsys T = Some dsrc then [] else [(T, dsrc)])\<rparr>"
    unfolding fsC_def old
    by (auto simp: fsA_def fsB_def T_cpp fun_upd_idem)
  with prep show ?thesis
    by (simp only: cpp_def T_def P_def msrc_def dsrc_def)
qed

section \<open>Materializing the sketch\<close>
text \<open>
  C8 (as amended). The sketch has a main file whose base name is \<^verbatim>\<open>Sketch.ino\<close>,
  without the include, and one additional file whose path relative to the sketch is
  \<^verbatim>\<open>data.txt\<close> and whose source (override or file) is hello; no operation fails
  and the two destinations are not directories. Then \<open>PrepareSketchBuildPath\<close>
  returns the offset 2; \<^verbatim>\<open>Sketch.ino.cpp\<close> in the build directory holds the include
  line, the marker \<^verbatim>\<open>#line 1\<close> with the path of the main file as the sketch records
  it between double quotes, and the main source; \<^verbatim>\<open>data.txt\<close> there holds the
  marker with the recorded path of the additional file, followed by hello. The merged
  file is written whatever the build directory held; the additional file is written only
  if the destination did not already hold that content.
\<close>
theorem materialized_sketch_recorded_paths:
  assumes s1: "Base (MainFile sk) = ''Sketch.ino''"
      and s2: "OtherSketchFiles sk = []"
      and s3: "AdditionalFiles sk = [dataFile]"
      and gm: "getSource sk overrides fsys (MainFile sk) = Inr mainSrc"
      and n: "\<not> includesArduinoH mainSrc"
      and r2: "relTo fsys (FullPath sk) dataFile = Inr ''data.txt''"
      and src: "overrides ''data.txt'' = Some ''hello''
                \<or> (overrides ''data.txt'' = None \<and> files fsys dataFile = Some ''hello''
                    \<and> dataFile \<noteq> Join buildPath ''Sketch.ino.cpp'')"
      and io: "\<forall>p. \<not> readFails fsys p \<and> \<not> writeFails fsys p \<and> \<not> mkdirFails fsys p"
      and b1: "files fsys buildPath = None"
      and b2: "files fsys (Parent (Join buildPath ''data.txt'')) = None"
      and b3: "Join buildPath ''Sketch.ino.cpp''
                 \<notin> insert buildPath (insert (Parent (Join buildPath ''data.txt'')) (dirs fsys))"
      and b4: "Join buildPath ''data.txt''
                 \<notin> insert buildPath (insert (Parent (Join buildPath ''data.txt''))
                      (insert (Join buildPath ''Sketch.ino.cpp'') (dirs fsys)))"
  shows "\<exists>fs'. PrepareSketchBuildPath sk overrides buildPath fsys = (Inr 2, fs')
           \<and> files fs' (Join buildPath ''Sketch.ino.cpp'') =
                 Some (''#include <Arduino.h>'' @ [CHR 0x0A] @ ''#line 1 '' @ [CHR 0x22]
                       @ MainFile sk @ [CHR 0x22, CHR 0x0A] @ mainSrc @ [CHR 0x0A])
           \<and> files fs' (Join buildPath ''data.txt'') =
                 Some (''#line 1 '' @ [CHR 0x22] @ dataFile @ [CHR 0x22, CHR 0x0A] @ ''hello'')
           \<and> writeLog fs' =
                 writeLog fsys
                 @ [(Join buildPath ''Sketch.ino.cpp'',
                     ''#include <Arduino.h>'' @ [CHR 0x0A] @ ''#line 1 '' @ [CHR 0x22]
                       @ MainFile sk @ [CHR 0x22, CHR 0x0A] @ mainSrc @ [CHR 0x0A])]
                 @ (if files fsys (Join buildPath ''data.txt'') =
                         Some (''#line 1 '' @ [CHR 0x22] @ dataFile @ [CHR 0x22, CHR 0x0A] @ ''hello'')
                    then []
                    else [(Join buildPath ''data.txt'',
                           ''#line 1 '' @ [CHR 0x22] @ dataFile @ [CHR 0x22, CHR 0x0A] @ ''hello'')])"
proof -
  have cn: "Base (MainFile sk) @ ''.cpp'' = ''Sketch.ino.cpp''" by (simp add: s1)
  have T_cpp: "Join buildPath ''data.txt'' \<noteq> Join buildPath ''Sketch.ino.cpp''"
    using b4 by auto
  note res = PrepareSketchBuildPath_result
    [where overrides = overrides, OF cn s2 s3 gm n r2 src io b1 b2 b3 b4]
  show ?thesis
    unfolding res by (simp add: QuoteString_def T_cpp T_cpp [THEN not_sym])
qed

text \<open>
  C8 as stated fails for a sketch recorded with its directory: the main file is
  \<^verbatim>\<open>/s/Sketch/Sketch.ino\<close> and the additional file \<^verbatim>\<open>/s/Sketch/data.txt\<close>.
  The build directory gets \<^verbatim>\<open>Sketch.ino.cpp\<close> and \<^verbatim>\<open>data.txt\<close>, but their
  markers carry the recorded paths, not the bare names.
\<close>
theorem materialized_sketch_scenario_counterexample:
  "fst (PrepareSketchBuildPath exDirSketch Map.empty ''/tmp/build'' exDirFS) = Inr 2
   \<and> files (snd (PrepareSketchBuildPath exDirSketch Map.empty ''/tmp/build'' exDirFS))
        ''/tmp/build/Sketch.ino.cpp'' =
        Some (''#include <Arduino.h>'' @ [CHR 0x0A] @ ''#line 1 '' @ [CHR 0x22]
              @ ''/s/Sketch/Sketch.ino'' @ [CHR 0x22, CHR 0x0A] @ ''void setup(){}'' @ [CHR 0x0A])
   \<and> files (snd (PrepareSketchBuildPath exDirSketch Map.empty ''/tmp/build'' exDirFS))
        ''/tmp/build/data.txt'' =
        Some (''#line 1 '' @ [CHR 0x22] @ ''/s/Sketch/data.txt'' @ [CHR 0x22, CHR 0x0A] @ ''hello'')
   \<and> \<not> prefix (''#include <Arduino.h>'' @ [CHR 0x0A] @ ''#line 1 '' @ [CHR 0x22]
                 @ ''Sketch.ino'' @ [CHR 0x22, CHR 0x0A])
               (''#include <Arduino.h>'' @ [CHR 0x0A] @ ''#line 1 '' @ [CHR 0x22]
                 @ ''/s/Sketch/Sketch.ino'' @ [CHR 0x22, CHR 0x0A] @ ''void setup(){}'' @ [CHR 0x0A])
   \<and> \<not> prefix (''#line 1 '' @ [CHR 0x22] @ ''data.txt'' @ [CHR 0x22, CHR 0x0A] @ ''hello'')
               (''#line 1 '' @ [CHR 0x22] @ ''/s/Sketch/data.txt'' @ [CHR 0x22, CHR 0x0A] @ ''hello'')"
proof -
  have J1: "Join ''/tmp/build'' ''Sketch.ino.cpp'' = ''/tmp/build/Sketch.ino.cpp''"
    by (simp add: path_defs)
  have J2: "Join ''/tmp/build'' ''data.txt'' = ''/tmp/build/data.txt''" by (simp add: path_defs)
  have P: "Parent ''/tmp/build/data.txt'' = ''/tmp/build''" by (simp add: path_defs)
  have cn: "Base (MainFile exDirSketch) @ ''.cpp'' = ''Sketch.ino.cpp''"
    by (simp add: exDirSketch_def Base_def)
  have s2: "OtherSketchFiles exDirSketch = []" by (simp add: exDirSketch_def)
  have s3: "AdditionalFiles exDirSketch = [''/s/Sketch/data.txt'']" by (simp add: exDirSketch_def)
  have gm: "getSource exDirSketch Map.empty exDirFS (MainFile exDirSketch) = Inr ''void setup(){}''"
    by (simp add: getSource_def ReadFile_def exDirSketch_def exDirFS_def)
  have n: "\<not> includesArduinoH ''void setup(){}''"
    by (simp add: includesArduinoH_def matchHere_def isSpace_def)
  have r2: "relTo exDirFS (FullPath exDirSketch) ''/s/Sketch/data.txt'' = Inr ''data.txt''"
    by (simp add: exDirSketch_def exDirFS_def)
  have src: "Map.empty ''data.txt'' = Some ''hello''
                \<or> ((Map.empty :: string \<rightharpoonup> string) ''data.txt'' = None
                    \<and> files exDirFS ''/s/Sketch/data.txt'' = Some ''hello''
                    \<and> ''/s/Sketch/data.txt'' \<noteq> Join ''/tmp/build'' ''Sketch.ino.cpp'')"
    by (simp add: J1) (simp add: exDirFS_def)
  have io: "\<forall>p. \<not> readFails exDirFS p \<and> \<not> writeFails exDirFS p \<and> \<not> mkdirFails exDirFS p"
    by (simp add: exDirFS_def)
  have b1: "files exDirFS ''/tmp/build'' = None" by (simp add: exDirFS_def)
  have b2: "files exDirFS (Parent (Join ''/tmp/build'' ''data.txt'')) = None"
    by (simp add: J2 P) (simp add: exDirFS_def)
  have b3: "Join ''/tmp/build'' ''Sketch.ino.cpp''
                 \<notin> insert ''/tmp/build'' (insert (Parent (Join ''/tmp/build'' ''data.txt'')) (dirs exDirFS))"
    by (simp add: J1 J2 P) (simp add: exDirFS_def)
  have b4: "Join ''/tmp/build'' ''data.txt''
                 \<notin> insert ''/tmp/build'' (insert (Parent (Join ''/tmp/build'' ''data.txt''))
                      (insert (Join ''/tmp/build'' ''Sketch.ino.cpp'') (dirs exDirFS)))"
    by (simp add: J1 J2 P) (simp add: exDirFS_def)
  note res = PrepareSketchBuildPath_result
    [where overrides = Map.empty, OF cn s2 s3 gm n r2 src io b1 b2 b3 b4]
  show ?thesis
    unfolding res by (simp add: J1 J2 QuoteString_def exDirSketch_def)
qed

text \<open>
  The scenario with the files recorded by their bare names, on a file system with an
  empty build directory: both files are written, in this order, and the markers carry the
  bare names. The same sketch recorded in the directory \<^verbatim>\<open>/s/Sketch\<close>: the same
  two files in the build directory, with the recorded paths in their markers.
\<close>
theorem materialized_sketch_recorded_paths_witness:
  "(\<exists>fs'. PrepareSketchBuildPath exScenarioSketch Map.empty ''build'' exBuildFS = (Inr 2, fs')
         \<and> files fs' ''build/Sketch.ino.cpp'' =
               Some (''#include <Arduino.h>'' @ [CHR 0x0A] @ ''#line 1 '' @ [CHR 0x22]
                     @ ''Sketch.ino'' @ [CHR 0x22, CHR 0x0A] @ ''void setup(){}'' @ [CHR 0x0A])
         \<and> files fs' ''build/data.txt'' =
               Some (''#line 1 '' @ [CHR 0x22] @ ''data.txt'' @ [CHR 0x22, CHR 0x0A] @ ''hello'')
         \<and> writeLog fs' =
               [(''build/Sketch.ino.cpp'',
                 ''#include <Arduino.h>'' @ [CHR 0x0A] @ ''#line 1 '' @ [CHR 0x22]
                     @ ''Sketch.ino'' @ [CHR 0x22, CHR 0x0A] @ ''void setup(){}'' @ [CHR 0x0A]),
                (''build/data.txt'',
                 ''#line 1 '' @ [CHR 0x22] @ ''data.txt'' @ [CHR 0x22, CHR 0x0A] @ ''hello'')])
   \<and> (\<exists>fs'. PrepareSketchBuildPath exDirSketch Map.empty ''/tmp/build'' exDirFS = (Inr 2, fs')
         \<and> files fs' ''/tmp/build/Sketch.ino.cpp'' =
               Some (''#include <Arduino.h>'' @ [CHR 0x0A] @ ''#line 1 '' @ [CHR 0x22]
                     @ ''/s/Sketch/Sketch.ino'' @ [CHR 0x22, CHR 0x0A] @ ''void setup(){}'' @ [CHR 0x0A])
         \<and> files fs' ''/tmp/build/data.txt'' =
               Some (''#line 1 '' @ [CHR 0x22] @ ''/s/Sketch/data.txt'' @ [CHR 0x22, CHR 0x0A] @ ''hello''))"
proof (rule conjI)
  show "\<exists>fs'. PrepareSketchBuildPath exScenarioSketch Map.empty ''build'' exBuildFS = (Inr 2, fs')
         \<and> files fs' ''build/Sketch.ino.cpp'' =
               Some (''#include <Arduino.h>'' @ [CHR 0x0A] @ ''#line 1 '' @ [CHR 0x22]
                     @ ''Sketch.ino'' @ [CHR 0x22, CHR 0x0A] @ ''void setup(){}'' @ [CHR 0x0A])
         \<and> files fs' ''build/data.txt'' =
               Some (''#line 1 '' @ [CHR 0x22] @ ''data.txt'' @ [CHR 0x22, CHR 0x0A] @ ''hello'')
         \<and> writeLog fs' =
               [(''build/Sketch.ino.cpp'',
                 ''#include <Arduino.h>'' @ [CHR 0x0A] @ ''#line 1 '' @ [CHR 0x22]
                     @ ''Sketch.ino'' @ [CHR 0x22, CHR 0x0A] @ ''void setup(){}'' @ [CHR 0x0A]),
                (''build/data.txt'',
                 ''#line 1 '' @ [CHR 0x22] @ ''data.txt'' @ [CHR 0x22, CHR 0x0A] @ ''hello'')]"
  proof -
    have J1: "Join ''build'' ''Sketch.ino.cpp'' = ''build/Sketch.ino.cpp''" by (simp add: path_defs)
    have J2: "Join ''build'' ''data.txt'' = ''build/data.txt''" by (simp add: path_defs)
    have P: "Parent ''build/data.txt'' = ''build''" by (simp add: path_defs)
    have s1: "Base (MainFile exScenarioSketch) = ''Sketch.ino''"
      by (simp add: exScenarioSketch_def Base_def)
    have m: "MainFile exScenarioSketch = ''Sketch.ino''" by (simp add: exScenarioSketch_def)
    have s2: "OtherSketchFiles exScenarioSketch = []" by (simp add: exScenarioSketch_def)
    have s3: "AdditionalFiles exScenarioSketch = [''data.txt'']" by (simp add: exScenarioSketch_def)
    have gm: "getSource exScenarioSketch Map.empty exBuildFS (MainFile exScenarioSketch)
                = Inr ''void setup(){}''"
      by (simp add: getSource_def ReadFile_def exScenarioSketch_def exBuildFS_def)
    have n: "\<not> includesArduinoH ''void setup(){}''"
      by (simp add: includesArduinoH_def matchHere_def isSpace_def)
    have r2: "relTo exBuildFS (FullPath exScenarioSketch) ''data.txt'' = Inr ''data.txt''"
      by (simp add: exScenarioSketch_def exBuildFS_def)
    have src: "Map.empty ''data.txt'' = Some ''hello''
                  \<or> ((Map.empty :: string \<rightharpoonup> string) ''data.txt'' = None
                      \<and> files exBuildFS ''data.txt'' = Some ''hello''
                      \<and> ''data.txt'' \<noteq> Join ''build'' ''Sketch.ino.cpp'')"
      by (simp add: J1) (simp add: exBuildFS_def)
    have io: "\<forall>p. \<not> readFails exBuildFS p \<and> \<not> writeFails exBuildFS p \<and> \<not> mkdirFails exBuildFS p"
      by (simp add: exBuildFS_def)
    have b1: "files exBuildFS ''build'' = None" by (simp add: exBuildFS_def)
    have b2: "files exBuildFS (Parent (Join ''build'' ''data.txt'')) = None"
      by (simp add: J2 P) (simp add: exBuildFS_def)
    have b3: "Join ''build'' ''Sketch.ino.cpp''
                   \<notin> insert ''build'' (insert (Parent (Join ''build'' ''data.txt'')) (dirs exBuildFS))"
      by (simp add: J1 J2 P) (simp add: exBuildFS_def)
    have b4: "Join ''build'' ''data.txt''
                   \<notin> insert ''build'' (insert (Parent (Join ''build'' ''data.txt''))
                        (insert (Join ''build'' ''Sketch.ino.cpp'') (dirs exBuildFS)))"
      by (simp add: J1 J2 P) (simp add: exBuildFS_def)
    have old: "files exBuildFS ''build/data.txt'' = None" by (simp add: exBuildFS_def)
    have lg: "writeLog exBuildFS = []" by (simp add: exBuildFS_def)
    note sc = materialized_sketch_recorded_paths
      [where overrides = Map.empty, OF s1 s2 s3 gm n r2 src io b1 b2 b3 b4]
    from sc obtain fs' where c:
      "PrepareSketchBuildPath exScenarioSketch Map.empty ''build'' exBuildFS = (Inr 2, fs')
             \<and> files fs' (Join ''build'' ''Sketch.ino.cpp'') =
                   Some (''#include <Arduino.h>'' @ [CHR 0x0A] @ ''#line 1 '' @ [CHR 0x22]
                         @ MainFile exScenarioSketch @ [CHR 0x22, CHR 0x0A] @ ''void setup(){}'' @ [CHR 0x0A])
             \<and> files fs' (Join ''build'' ''data.txt'') =
                   Some (''#line 1 '' @ [CHR 0x22] @ ''data.txt'' @ [CHR 0x22, CHR 0x0A] @ ''hello'')
             \<and> writeLog fs' =
                   writeLog exBuildFS
                   @ [(Join ''build'' ''Sketch.ino.cpp'',
                       ''#include <Arduino.h>'' @ [CHR 0x0A] @ ''#line 1 '' @ [CHR 0x22]
                         @ MainFile exScenarioSketch @ [CHR 0x22, CHR 0x0A] @ ''void setup(){}'' @ [CHR 0x0A])]
                   @ (if files exBuildFS (Join ''build'' ''data.txt'') =
                           Some (''#line 1 '' @ [CHR 0x22] @ ''data.txt'' @ [CHR 0x22, CHR 0x0A] @ ''hello'')
                      then []
                      else [(Join ''build'' ''data.txt'',
                             ''#line 1 '' @ [CHR 0x22] @ ''data.txt'' @ [CHR 0x22, CHR 0x0A] @ ''hello'')])" ..
    note c1 = c [THEN conjunct1]
    note c2 = c [THEN conjunct2, THEN conjunct1]
    note c3 = c [THEN conjunct2, THEN conjunct2, THEN conjunct1]
    note c4 = c [THEN conjunct2, THEN conjunct2, THEN conjunct2]
    show ?thesis
    proof (rule exI, intro conjI)
      show "PrepareSketchBuildPath exScenarioSketch Map.empty ''build'' exBuildFS = (Inr 2, fs')"
        by (rule c1)
      show "files fs' ''build/Sketch.ino.cpp'' =
                 Some (''#include <Arduino.h>'' @ [CHR 0x0A] @ ''#line 1 '' @ [CHR 0x22]
                       @ ''Sketch.ino'' @ [CHR 0x22, CHR 0x0A] @ ''void setup(){}'' @ [CHR 0x0A])"
        using c2 by (simp add: J1 m)
      show "files fs' ''build/data.txt'' =
                 Some (''#line 1 '' @ [CHR 0x22] @ ''data.txt'' @ [CHR 0x22, CHR 0x0A] @ ''hello'')"
        using c3 by (simp add: J2)
      show "writeLog fs' =
                 [(''build/Sketch.ino.cpp'',
                   ''#include <Arduino.h>'' @ [CHR 0x0A] @ ''#line 1 '' @ [CHR 0x22]
                       @ ''Sketch.ino'' @ [CHR 0x22, CHR 0x0A] @ ''void setup(){}'' @ [CHR 0x0A]),
                  (''build/data.txt'',
                   ''#line 1 '' @ [CHR 0x22] @ ''data.txt'' @ [CHR 0x22, CHR 0x0A] @ ''hello'')]"
        using c4 by (simp add: J1 J2 lg old m)
    qed
  qed
  show "\<exists>fs'. PrepareSketchBuildPath exDirSketch Map.empty ''/tmp/build'' exDirFS = (Inr 2, fs')
         \<and> files fs' ''/tmp/build/Sketch.ino.cpp'' =
               Some (''#include <Arduino.h>'' @ [CHR 0x0A] @ ''#line 1 '' @ [CHR 0x22]
                     @ ''/s/Sketch/Sketch.ino'' @ [CHR 0x22, CHR 0x0A] @ ''void setup(){}'' @ [CHR 0x0A])
         \<and> files fs' ''/tmp/build/data.txt'' =
               Some (''#line 1 '' @ [CHR 0x22] @ ''/s/Sketch/data.txt'' @ [CHR 0x22, CHR 0x0A] @ ''hello'')"
  proof -
    have J1: "Join ''/tmp/build'' ''Sketch.ino.cpp'' = ''/tmp/build/Sketch.ino.cpp''"
      by (simp add: path_defs)
    have J2: "Join ''/tmp/build'' ''data.txt'' = ''/tmp/build/data.txt''" by (simp add: path_defs)
    have P: "Parent ''/tmp/build/data.txt'' = ''/tmp/build''" by (simp add: path_defs)
    have s1: "Base (MainFile exDirSketch) = ''Sketch.ino''"
      by (simp add: exDirSketch_def Base_def)
    have m: "MainFile exDirSketch = ''/s/Sketch/Sketch.ino''" by (simp add: exDirSketch_def)
    have s2: "OtherSketchFiles exDirSketch = []" by (simp add: exDirSketch_def)
    have s3: "AdditionalFiles exDirSketch = [''/s/Sketch/data.txt'']" by (simp add: exDirSketch_def)
    have gm: "getSource exDirSketch Map.empty exDirFS (MainFile exDirSketch) = Inr ''void setup(){}''"
      by (simp add: getSource_def ReadFile_def exDirSketch_def exDirFS_def)
    have n: "\<not> includesArduinoH ''void setup(){}''"
      by (simp add: includesArduinoH_def matchHere_def isSpace_def)
    have r2: "relTo exDirFS (FullPath exDirSketch) ''/s/Sketch/data.txt'' = Inr ''data.txt''"
      by (simp add: exDirSketch_def exDirFS_def)
    have src: "Map.empty ''data.txt'' = Some ''hello''
                  \<or> ((Map.empty :: string \<rightharpoonup> string) ''data.txt'' = None
                      \<and> files exDirFS ''/s/Sketch/data.txt'' = Some ''hello''
                      \<and> ''/s/Sketch/data.txt'' \<noteq> Join ''/tmp/build'' ''Sketch.ino.cpp'')"
      by (simp add: J1) (simp add: exDirFS_def)
    have io: "\<forall>p. \<not> readFails exDirFS p \<and> \<not> writeFails exDirFS p \<and> \<not> mkdirFails exDirFS p"
      by (simp add: exDirFS_def)
    have b1: "files exDirFS ''/tmp/build'' = None" by (simp add: exDirFS_def)
    have b2: "files exDirFS (Parent (Join ''/tmp/build'' ''data.txt'')) = None"
      by (simp add: J2 P) (simp add: exDirFS_def)
    have b3: "Join ''/tmp/build'' ''Sketch.ino.cpp''
                   \<notin> insert ''/tmp/build'' (insert (Parent (Join ''/tmp/build'' ''data.txt'')) (dirs exDirFS))"
      by (simp add: J1 J2 P) (simp add: exDirFS_def)
    have b4: "Join ''/tmp/build'' ''data.txt''
                   \<notin> insert ''/tmp/build'' (insert (Parent (Join ''/tmp/build'' ''data.txt''))
                        (insert (Join ''/tmp/build'' ''Sketch.ino.cpp'') (dirs exDirFS)))"
      by (simp add: J1 J2 P) (simp add: exDirFS_def)
    note sc = materialized_sketch_recorded_paths
      [where overrides = Map.empty, OF s1 s2 s3 gm n r2 src io b1 b2 b3 b4]
    from sc obtain fs' where c:
      "PrepareSketchBuildPath exDirSketch Map.empty ''/tmp/build'' exDirFS = (Inr 2, fs')
             \<and> files fs' (Join ''/tmp/build'' ''Sketch.ino.cpp'') =
                   Some (''#include <Arduino.h>'' @ [CHR 0x0A] @ ''#line 1 '' @ [CHR 0x22]
                         @ MainFile exDirSketch @ [CHR 0x22, CHR 0x0A] @ ''void setup(){}'' @ [CHR 0x0A])
             \<and> files fs' (Join ''/tmp/build'' ''data.txt'') =
                   Some (''#line 1 '' @ [CHR 0x22] @ ''/s/Sketch/data.txt'' @ [CHR 0x22, CHR 0x0A] @ ''hello'')
             \<and> writeLog fs' =
                   writeLog exDirFS
                   @ [(Join ''/tmp/build'' ''Sketch.ino.cpp'',
                       ''#include <Arduino.h>'' @ [CHR 0x0A] @ ''#line 1 '' @ [CHR 0x22]
                         @ MainFile exDirSketch @ [CHR 0x22, CHR 0x0A] @ ''void setup(){}'' @ [CHR 0x0A])]
                   @ (if files exDirFS (Join ''/tmp/build'' ''data.txt'') =
                           Some (''#line 1 '' @ [CHR 0x22] @ ''/s/Sketch/data.txt'' @ [CHR 0x22, CHR 0x0A] @ ''hello'')
                      then []
                      else [(Join ''/tmp/build'' ''data.txt'',
                             ''#line 1 '' @ [CHR 0x22] @ ''/s/Sketch/data.txt'' @ [CHR 0x22, CHR 0x0A] @ ''hello'')])" ..
    note c1 = c [THEN conjunct1]
    note c2 = c [THEN conjunct2, THEN conjunct1]
    note c3 = c [THEN conjunct2, THEN conjunct2, THEN conjunct1]
    show ?thesis
    proof (rule exI, intro conjI)
      show "PrepareSketchBuildPath exDirSketch Map.empty ''/tmp/build'' exDirFS = (Inr 2, fs')"
        by (rule c1)
      show "files fs' ''/tmp/build/Sketch.ino.cpp'' =
                 Some (''#include <Arduino.h>'' @ [CHR 0x0A] @ ''#line 1 '' @ [CHR 0x22]
                       @ ''/s/Sketch/Sketch.ino'' @ [CHR 0x22, CHR 0x0A] @ ''void setup(){}'' @ [CHR 0x0A])"
        using c2 by (simp add: J1 m)
      show "files fs' ''/tmp/build/data.txt'' =
                 Some (''#line 1 '' @ [CHR 0x22] @ ''/s/Sketch/data.txt'' @ [CHR 0x22, CHR 0x0A] @ ''hello'')"
        using c3 by (simp add: J2)
    qed
  qed
qed

end
